theory Spec2Isabelle
  imports Main
begin

section \<open>Machine integers of the ATmega328P sketch\<close>

text \<open>
  The sketch is built for the ATmega328P (see \<^verbatim>\<open>Board/boards.txt\<close>), where \<^verbatim>\<open>int\<close> has
  16 bits. Signed variables are modelled as \<open>int\<close> and unsigned ones as \<open>nat\<close>; every
  narrowing assignment is written out as the reduction avr-gcc performs.
\<close>

definition wrap8 :: "int \<Rightarrow> int" where
  \<comment> \<open>conversion to \<^verbatim>\<open>int8_t\<close>\<close>
  "wrap8 x = (x + 128) mod 256 - 128"

definition wrap16 :: "int \<Rightarrow> int" where
  \<comment> \<open>the 16-bit \<^verbatim>\<open>int\<close> of the target\<close>
  "wrap16 x = (x + 32768) mod 65536 - 32768"

definition u8 :: "int \<Rightarrow> nat" where
  \<comment> \<open>conversion to \<^verbatim>\<open>uint8_t\<close>\<close>
  "u8 x = nat (x mod 256)"

definition u16 :: "int \<Rightarrow> nat" where
  \<comment> \<open>conversion to \<^verbatim>\<open>uint16_t\<close>\<close>
  "u16 x = nat (x mod 65536)"

definition u32 :: "int \<Rightarrow> nat" where
  \<comment> \<open>conversion to \<^verbatim>\<open>uint32_t\<close>\<close>
  "u32 x = nat (x mod 4294967296)"

definition c_rem :: "int \<Rightarrow> int \<Rightarrow> int" where
  \<comment> \<open>the \<^verbatim>\<open>%\<close> of C, which truncates towards zero\<close>
  "c_rem a b = (if 0 \<le> a then a mod \<bar>b\<bar> else - ((- a) mod \<bar>b\<bar>))"

section \<open>Collaborators\<close>

text \<open>
  The libraries \<^verbatim>\<open>Timer\<close>, \<^verbatim>\<open>SevenSegments\<close>, \<^verbatim>\<open>Encoder\<close> and \<^verbatim>\<open>PushButton\<close> are
  not part of the sketch. What the sketch reads from them is an input of the model; every
  command it sends to them is appended to a trace, in program order.
\<close>

datatype state_t = SETTING | RUN | PAUSE | BEEPING | MENU

datatype pin = OUT | OUT2

datatype timer_id = timerMain | timerDots | timerPause | timerBeep1 | timerBeep2 | timerBeep3

datatype start_arg = NoArg | LOOP | Repeat nat

datatype io =
    DigitalWrite pin bool
  | TimerInit timer_id
  | TimerSetDelay timer_id nat
  | TimerSetMinutesSeconds timer_id int int
  | TimerStart timer_id start_arg
  | TimerPause timer_id
  | TimerStop timer_id
  | ClockBegin
  | ClockSetDots "bool option"
  | ClockEnable "bool option"
  | ClockSetMinutes int
  | ClockSetSeconds int
  | ClockUpdate
  | LedBegin
  | LedSetIntensity int
  | LedClrAll
  | LedSetText string
  | LedSetDigit nat nat
  | LedSetChar nat char
  | EncoderBegin
  | ButtonBegin nat
  | PinModeOutput pin
  | BeepSetup
  | BeepOn
  | BeepOff
  | EepromWrite nat nat
  | EepromUpdate nat nat
  | Delay nat

text \<open>
  The global variables of the sketch, the level of the two relay pins (\<open>True\<close> is
  \<^verbatim>\<open>HIGH\<close>), whether the tone generator runs, the EEPROM and the trace.
\<close>

record ctl =
  state :: state_t
  menuState :: nat
  enable :: bool
  minutes :: int
  seconds :: int
  duration :: int
  brightness :: nat
  bellType :: nat
  bellLength :: nat
  bellLoops :: nat
  currentMem :: nat
  out :: bool
  out2 :: bool
  tone :: bool
  eeprom :: "nat \<Rightarrow> nat"
  trace :: "io list"

definition emit :: "io \<Rightarrow> ctl \<Rightarrow> ctl" where
  "emit c st = st\<lparr>trace := trace st @ [c]\<rparr>"

definition digitalWrite :: "pin \<Rightarrow> bool \<Rightarrow> ctl \<Rightarrow> ctl" where
  "digitalWrite p v st =
     (case p of
        OUT \<Rightarrow> emit (DigitalWrite OUT v) (st\<lparr>out := v\<rparr>)
      | OUT2 \<Rightarrow> emit (DigitalWrite OUT2 v) (st\<lparr>out2 := v\<rparr>))"

definition beepOn :: "ctl \<Rightarrow> ctl" where
  \<comment> \<open>pins 9 and 10 become outputs and hardware timer 1 is clocked\<close>
  "beepOn st = emit BeepOn (st\<lparr>tone := True\<rparr>)"

definition beepOff :: "ctl \<Rightarrow> ctl" where
  \<comment> \<open>pins 9 and 10 become inputs and hardware timer 1 is halted\<close>
  "beepOff st = emit BeepOff (st\<lparr>tone := False\<rparr>)"

section \<open>Setting the time\<close>

text \<open>
  \<^verbatim>\<open>bool setMinutes(int8_t value)\<close>: the result is paired with the new state.
\<close>

definition setMinutes :: "int \<Rightarrow> ctl \<Rightarrow> bool \<times> ctl" where
  "setMinutes v st =
     (let m = wrap8 (minutes st + v) in
      if m \<ge> 99 then (False, st\<lparr>minutes := 99\<rparr>)
      else if m < 0 then (False, st\<lparr>minutes := 0\<rparr>)
      else (True, emit (ClockSetMinutes m) (st\<lparr>minutes := m\<rparr>)))"

definition setSeconds :: "int \<Rightarrow> ctl \<Rightarrow> ctl" where
  "setSeconds v st =
     (let s = wrap8 (seconds st + v);
          st1 =
            (if s \<ge> 60 then
               (case setMinutes 1 st of
                  (True, st') \<Rightarrow> st'\<lparr>seconds := wrap8 (c_rem s 60)\<rparr>
                | (False, st') \<Rightarrow> st'\<lparr>seconds := 59\<rparr>)
             else if s < 0 then
               (case setMinutes (- 1) st of
                  (True, st') \<Rightarrow> st'\<lparr>seconds := wrap8 (s + 60)\<rparr>
                | (False, st') \<Rightarrow> st'\<lparr>seconds := 0\<rparr>)
             else st\<lparr>seconds := s\<rparr>)
      in emit (ClockSetSeconds (seconds st1)) st1)"

text \<open>
  \<^verbatim>\<open>void setTime(int8_t value)\<close>: the product is an \<^verbatim>\<open>int\<close> and is narrowed to the
  \<^verbatim>\<open>int8_t\<close> parameter of \<^verbatim>\<open>setSeconds\<close>.
\<close>

definition setTime :: "int \<Rightarrow> ctl \<Rightarrow> ctl" where
  "setTime v st =
     (let st1 =
            (if duration st \<ge> 600 then setSeconds (wrap8 (v * 30)) st
             else if duration st \<ge> 300 then setSeconds (wrap8 (v * 15)) st
             else if duration st \<ge> 120 then setSeconds (wrap8 (v * 10)) st
             else if duration st \<ge> 30 then setSeconds (wrap8 (v * 5)) st
             else setSeconds (wrap8 v) st)
      in st1\<lparr>duration := wrap16 (60 * minutes st1 + seconds st1)\<rparr>)"

section \<open>The alert timers\<close>

text \<open>
  \<^verbatim>\<open>void setBeepTimers(int8_t type)\<close>. The table gives \<^verbatim>\<open>delay1\<close> and \<^verbatim>\<open>delay2\<close>
  (\<^verbatim>\<open>delay3\<close> is always 0 and never used).
\<close>

definition beepDelays :: "int \<Rightarrow> nat \<times> nat" where
  "beepDelays type =
     (if type = 0 then (100, 90)
      else if type = 1 then (1000, 500)
      else if type = 2 then (500, 250)
      else if type = 3 then (100, 50)
      else if type = 4 then (1000, 900)
      else if type = 5 then (500, 450)
      else if type = 6 then (2000, 1500)
      else if type = 7 then (1000, 50)
      else if type = 8 then (500, 40)
      else (1000, 500))"

text \<open>
  \<^verbatim>\<open>bellLoops = ((uint32_t)(bellLength * 1000) / delay1)\<close>: the product is formed in the
  16-bit \<^verbatim>\<open>int\<close> and only then widened; the quotient is narrowed to \<^verbatim>\<open>uint16_t\<close>.
  \<^verbatim>\<open>bellLoops * delay1\<close> is a product of two \<^verbatim>\<open>uint16_t\<close>, hence of 16 bits as well.
\<close>

definition setBeepTimers :: "int \<Rightarrow> ctl \<Rightarrow> ctl" where
  "setBeepTimers type st =
     (let (delay1, delay2) = beepDelays type;
          st1 = emit (TimerSetDelay timerBeep2 delay2) (emit (TimerSetDelay timerBeep1 delay1) st);
          loops = u16 (int (u32 (wrap16 (int (bellLength st1) * 1000)) div delay1));
          st2 = st1\<lparr>bellLoops := loops\<rparr>
      in emit (TimerSetDelay timerBeep3 (u16 (int loops * int delay1))) st2)"

section \<open>The states\<close>

text \<open>What one pass of \<^verbatim>\<open>loop()\<close> reads from a push button.\<close>

record button =
  changed :: bool \<comment> \<open>\<^verbatim>\<open>update()\<close>\<close>
  justPressed :: bool
  isLongPressed :: bool

text \<open>What one pass of a menu loop reads: the encoder step, if it moved, and both buttons.\<close>

record poll =
  p_enc :: "int option"
  p_sw1 :: button
  p_sw2 :: button

text \<open>
  What one pass of \<^verbatim>\<open>loop()\<close> reads: the buttons, the encoder, the result of
  \<^verbatim>\<open>update()\<close> of each timer, the remaining time of the main timer, and the passes of the
  menu loops should the menu be entered.
\<close>

record inputs =
  sw1 :: button
  sw2 :: button
  enc :: "int option"
  enc_sw1 :: "int option" \<comment> \<open>read by \<^verbatim>\<open>setting()\<close> when called from \<^verbatim>\<open>manageSW1\<close>\<close>
  dotsFired :: bool
  mainFired :: bool
  pauseFired :: bool
  beep1Fired :: bool
  beep2Fired :: bool
  beep3Fired :: bool
  rMinutes :: int
  rSeconds :: int
  polls :: "poll list"

definition emits :: "io list \<Rightarrow> ctl \<Rightarrow> ctl" where
  "emits cs st = st\<lparr>trace := trace st @ cs\<rparr>"

definition stop :: "ctl \<Rightarrow> ctl" where
  "stop st =
     (let st1 = digitalWrite OUT2 True (digitalWrite OUT True st);
          st2 = emits [TimerStop timerMain, TimerStop timerDots] st1
      in emits [ClockEnable None, ClockSetDots (Some True),
                ClockSetMinutes (minutes st2), ClockSetSeconds (seconds st2)] st2)"

definition setting :: "int option \<Rightarrow> ctl \<Rightarrow> ctl" where
  "setting e st =
     emit ClockUpdate (case e of None \<Rightarrow> st | Some step \<Rightarrow> setTime (wrap8 step) st)"

definition beeping :: "inputs \<Rightarrow> ctl \<Rightarrow> ctl" where
  "beeping i st =
     (let st1 = (if beep1Fired i then beepOn (emit (TimerStart timerBeep2 NoArg) st) else st);
          st2 = (if beep2Fired i then beepOff st1 else st1)
      in if beep3Fired i then
           stop (beepOff (emits [TimerStop timerBeep3, TimerStop timerBeep2, TimerStop timerBeep1]
                                (st2\<lparr>state := SETTING\<rparr>)))
         else st2)"

definition running :: "inputs \<Rightarrow> ctl \<Rightarrow> ctl" where
  "running i st =
     (let st1 = (if dotsFired i
                 then emit (ClockSetDots (Some (\<not> enable st))) (st\<lparr>enable := \<not> enable st\<rparr>)
                 else st);
          st2 = emits [ClockSetMinutes (rMinutes i), ClockSetSeconds (rSeconds i), ClockUpdate] st1
      in if mainFired i then
           stop (if bellLength st2 > 0 then
                   (beepOn (emits [TimerStart timerBeep1 (Repeat (bellLoops st2)),
                                   TimerStart timerBeep2 NoArg,
                                   TimerStart timerBeep3 NoArg] st2))\<lparr>state := BEEPING\<rparr>
                 else st2\<lparr>state := SETTING\<rparr>)
         else st2)"

definition pause :: "inputs \<Rightarrow> ctl \<Rightarrow> ctl" where
  "pause i st =
     emit ClockUpdate
       (if pauseFired i
        then emit (ClockEnable (Some (\<not> enable st))) (st\<lparr>enable := \<not> enable st\<rparr>)
        else st)"

definition stopBeeps :: "ctl \<Rightarrow> ctl" where
  \<comment> \<open>the first lines of \<^verbatim>\<open>manageSW1\<close> and \<^verbatim>\<open>manageSW2\<close>, taken when \<^verbatim>\<open>state == BEEPING\<close>\<close>
  "stopBeeps st =
     (beepOff (emits [TimerStop timerBeep1, TimerStop timerBeep2, TimerStop timerBeep3] st))
       \<lparr>state := SETTING\<rparr>"

definition manageSW1 :: "inputs \<Rightarrow> ctl \<Rightarrow> ctl" where
  "manageSW1 i st =
     (if state st = BEEPING then stopBeeps st
      else if isLongPressed (sw1 i) then (stop st)\<lparr>state := SETTING\<rparr>
      else if justPressed (sw1 i) then
        (case state st of
           SETTING \<Rightarrow>
             (let st1 = emits [ClockSetMinutes (minutes st), ClockSetSeconds (seconds st),
                               TimerSetMinutesSeconds timerMain (minutes st) (seconds st)]
                              (st\<lparr>state := RUN\<rparr>);
                  st2 = digitalWrite OUT2 False (digitalWrite OUT False st1)
              in emits [TimerStart timerMain NoArg, TimerStart timerDots LOOP] st2)
         | RUN \<Rightarrow>
             (let st1 = emits [TimerPause timerMain, TimerPause timerDots] st;
                  st2 = emits [ClockEnable (Some False), TimerStart timerPause LOOP]
                              (st1\<lparr>enable := False\<rparr>);
                  st3 = digitalWrite OUT2 True (digitalWrite OUT True st2)
              in st3\<lparr>state := PAUSE\<rparr>)
         | PAUSE \<Rightarrow>
             (let st1 = emits [TimerPause timerMain, TimerPause timerDots, TimerStop timerPause] st;
                  st2 = digitalWrite OUT2 False (digitalWrite OUT False (st1\<lparr>enable := True\<rparr>))
              in emit (ClockEnable (Some True)) (st2\<lparr>state := RUN\<rparr>))
         | _ \<Rightarrow> setting (enc_sw1 i) st)
      else st)"

section \<open>The persistent store\<close>

definition brightAdd :: nat where "brightAdd = 0"
definition bellTAdd :: nat where "bellTAdd = 1"
definition bellLAdd :: nat where "bellLAdd = 2"
definition memAdd :: nat where "memAdd = 3"
definition maxStore :: nat where "maxStore = 64"
definition maxType :: nat where "maxType = 8"
definition maxTime :: nat where "maxTime = 90"

definition EEPROM_read :: "nat \<Rightarrow> ctl \<Rightarrow> nat" where
  \<comment> \<open>a cell holds one byte\<close>
  "EEPROM_read a st = eeprom st a mod 256"

definition EEPROM_write :: "nat \<Rightarrow> nat \<Rightarrow> ctl \<Rightarrow> ctl" where
  "EEPROM_write a v st = emit (EepromWrite a v) (st\<lparr>eeprom := (eeprom st)(a := v mod 256)\<rparr>)"

definition EEPROM_update :: "nat \<Rightarrow> nat \<Rightarrow> ctl \<Rightarrow> ctl" where
  \<comment> \<open>writes the cell only if the value differs: the same contents afterwards\<close>
  "EEPROM_update a v st = emit (EepromUpdate a v) (st\<lparr>eeprom := (eeprom st)(a := v mod 256)\<rparr>)"

section \<open>The menu\<close>

text \<open>
  Every menu function is a loop that polls the inputs until a button ends it. It consumes
  one \<open>poll\<close> per pass and returns the new state with the polls left over, or \<open>None\<close> when
  the polls end before the loop does.
\<close>

definition memStep :: "nat \<Rightarrow> int \<Rightarrow> nat" where
  \<comment> \<open>\<^verbatim>\<open>mem += encoder.getStep(); if(mem < 1) mem = 1; if(mem > maxStore) mem = maxStore;\<close>\<close>
  "memStep mem step =
     (let m = u8 (int mem + step);
          m1 = (if m < 1 then 1 else m)
      in if m1 > maxStore then maxStore else m1)"

definition brightnessStep :: "nat \<Rightarrow> int \<Rightarrow> nat" where
  "brightnessStep b step =
     (let t = u8 (int b + step);
          t1 = (if t < 1 then 1 else t)
      in if t1 > 16 then 16 else t1)"

definition bellStep :: "nat \<Rightarrow> nat \<Rightarrow> int \<Rightarrow> nat" where
  \<comment> \<open>\<^verbatim>\<open>if(encoder.getStep() > 0){ if(++x > hi) x = hi; } else { if(x > 0) --x; }\<close>\<close>
  "bellStep hi x step =
     (if step > 0 then (let x1 = u8 (int x + 1) in if x1 > hi then hi else x1)
      else if x > 0 then x - 1 else x)"

fun storeTime_loop :: "nat \<Rightarrow> poll list \<Rightarrow> ctl \<Rightarrow> (ctl \<times> poll list) option" where
  "storeTime_loop mem [] st = None"
| "storeTime_loop mem (p # ps) st =
     (let mem1 = (case p_enc p of None \<Rightarrow> mem | Some step \<Rightarrow> memStep mem step);
          st1 = emits [LedSetText ''-M'', LedSetDigit 3 (mem1 mod 10), LedSetDigit 2 (mem1 div 10)] st
      in if justPressed (p_sw1 p) then
           Some (EEPROM_update (memAdd + 2 * mem1 + 1) (u8 (seconds st1))
                   (EEPROM_update (memAdd + 2 * mem1) (u8 (minutes st1))
                      (st1\<lparr>currentMem := mem1\<rparr>)), ps)
         else if justPressed (p_sw2 p) then Some (st1, ps)
         else storeTime_loop mem1 ps st1)"

definition storeTime :: "poll list \<Rightarrow> ctl \<Rightarrow> (ctl \<times> poll list) option" where
  "storeTime ps st = storeTime_loop (currentMem st) ps (emit LedClrAll st)"

fun recallTime_loop :: "nat \<Rightarrow> poll list \<Rightarrow> ctl \<Rightarrow> (ctl \<times> poll list) option" where
  "recallTime_loop mem [] st = None"
| "recallTime_loop mem (p # ps) st =
     (let mem1 = (case p_enc p of None \<Rightarrow> mem | Some step \<Rightarrow> memStep mem step);
          st1 = emits [LedSetText ''M-'', LedSetDigit 3 (mem1 mod 10), LedSetDigit 2 (mem1 div 10)] st
      in if justPressed (p_sw1 p) then
           (let st2 = st1\<lparr>currentMem := mem1\<rparr>;
                st3 = st2\<lparr>minutes := wrap8 (int (EEPROM_read (memAdd + 2 * mem1) st2))\<rparr>;
                st4 = st3\<lparr>seconds := wrap8 (int (EEPROM_read (memAdd + 2 * mem1 + 1) st3))\<rparr>;
                st5 = emits [ClockSetSeconds (seconds st4), ClockSetMinutes (minutes st4)] st4
            in Some (st5\<lparr>state := SETTING\<rparr>, ps))
         else if justPressed (p_sw2 p) then Some (st1, ps)
         else recallTime_loop mem1 ps st1)"

definition recallTime :: "poll list \<Rightarrow> ctl \<Rightarrow> (ctl \<times> poll list) option" where
  "recallTime ps st = recallTime_loop (currentMem st) ps (emit LedClrAll st)"

fun setBrightness_loop :: "nat \<Rightarrow> poll list \<Rightarrow> ctl \<Rightarrow> (ctl \<times> poll list) option" where
  "setBrightness_loop t [] st = None"
| "setBrightness_loop t (p # ps) st =
     (let t1 = (case p_enc p of None \<Rightarrow> t | Some step \<Rightarrow> brightnessStep t step);
          st1 = emits [LedSetChar 0 CHR ''L'', LedSetDigit 3 (t1 mod 10), LedSetDigit 2 (t1 div 10),
                       LedSetIntensity (int t1 - 1)] st
      in if justPressed (p_sw1 p) then
           Some (EEPROM_update brightAdd t1 (st1\<lparr>brightness := t1\<rparr>), ps)
         else if justPressed (p_sw2 p) then Some (st1, ps)
         else setBrightness_loop t1 ps st1)"

definition setBrightness :: "poll list \<Rightarrow> ctl \<Rightarrow> (ctl \<times> poll list) option" where
  "setBrightness ps st =
     (case setBrightness_loop (brightness st) ps (emit LedClrAll st) of
        None \<Rightarrow> None
      | Some (st1, ps1) \<Rightarrow> Some (emit (LedSetIntensity (int (brightness st1) - 1)) st1, ps1))"

fun setBellType_loop :: "nat \<Rightarrow> poll list \<Rightarrow> ctl \<Rightarrow> (ctl \<times> poll list) option" where
  "setBellType_loop type [] st = None"
| "setBellType_loop type (p # ps) st =
     (let (type1, st1) =
            (case p_enc p of
               None \<Rightarrow> (type, st)
             | Some step \<Rightarrow>
                 (let t = bellStep maxType type step
                  in (t, emits [LedSetText ''BT'', LedSetDigit 3 t] st)))
      in if justPressed (p_sw1 p) then
           (let st2 = EEPROM_update bellTAdd type1 (st1\<lparr>bellType := type1\<rparr>)
            in Some (setBeepTimers (wrap8 (int (bellType st2))) st2, ps))
         else if justPressed (p_sw2 p) then Some (st1, ps)
         else setBellType_loop type1 ps st1)"

definition setBellType :: "poll list \<Rightarrow> ctl \<Rightarrow> (ctl \<times> poll list) option" where
  "setBellType ps st =
     setBellType_loop (bellType st) ps
       (emits [LedClrAll, LedSetText ''BT'', LedSetDigit 3 (bellType st)] st)"

fun setBellLength_loop :: "nat \<Rightarrow> poll list \<Rightarrow> ctl \<Rightarrow> (ctl \<times> poll list) option" where
  "setBellLength_loop len [] st = None"
| "setBellLength_loop len (p # ps) st =
     (let (len1, st1) =
            (case p_enc p of
               None \<Rightarrow> (len, st)
             | Some step \<Rightarrow>
                 (let l = bellStep maxTime len step
                  in (l, emits [LedSetText ''BL'', LedSetDigit 3 (l mod 10), LedSetDigit 2 (l div 10)] st)))
      in if justPressed (p_sw1 p) then
           (let st2 = EEPROM_update bellLAdd len1 (st1\<lparr>bellLength := len1\<rparr>)
            in Some (setBeepTimers (wrap8 (int (bellType st2))) st2, ps))
         else if justPressed (p_sw2 p) then Some (st1, ps)
         else setBellLength_loop len1 ps st1)"

definition setBellLength :: "poll list \<Rightarrow> ctl \<Rightarrow> (ctl \<times> poll list) option" where
  "setBellLength ps st =
     setBellLength_loop (bellLength st) ps
       (emits [LedClrAll, LedSetText ''BL'', LedSetDigit 3 (bellLength st mod 10),
               LedSetDigit 2 (bellLength st div 10)] st)"

text \<open>The \<^verbatim>\<open>switch (menuState)\<close> of \<^verbatim>\<open>menuNaviguate\<close>, in the order of the source.\<close>

definition menuItem :: "bool \<Rightarrow> poll list \<Rightarrow> ctl \<Rightarrow> (ctl \<times> poll list) option" where
  "menuItem menuClicked ps st =
     (if menuState st = 1 then
        (let st1 = emit (LedSetText ''-MEM'') st
         in if menuClicked then storeTime ps st1 else Some (st1, ps))
      else if menuState st = 0 then
        (let st1 = emit (LedSetText ''MEM-'') st
         in if menuClicked then recallTime ps st1 else Some (st1, ps))
      else if menuState st = 2 then
        (let st1 = emit (LedSetText ''LUM'') st
         in if menuClicked then setBrightness ps st1 else Some (st1, ps))
      else if menuState st = 3 then
        (let st1 = emit (LedSetText ''BL T'') st
         in if menuClicked then setBellType ps st1 else Some (st1, ps))
      else if menuState st = 4 then
        (let st1 = emit (LedSetText ''BL L'') st
         in if menuClicked then setBellLength ps st1 else Some (st1, ps))
      else Some (st, ps))"

definition menuPass :: "poll \<Rightarrow> poll list \<Rightarrow> ctl \<Rightarrow> (ctl \<times> poll list) option" where
  \<comment> \<open>the body of the \<^verbatim>\<open>do ... while(state == MENU)\<close> loop\<close>
  "menuPass p ps st =
     (let st1 =
            (case p_enc p of
               None \<Rightarrow> st
             | Some e \<Rightarrow>
                 (let step = wrap8 e;
                      sa = (if step > 0 \<and> menuState st < 4
                            then st\<lparr>menuState := menuState st + 1\<rparr> else st)
                  in if step < 0 \<and> menuState sa > 0
                     then sa\<lparr>menuState := menuState sa - 1\<rparr> else sa));
          menuClicked = (changed (p_sw1 p) \<and> justPressed (p_sw1 p));
          st2 = (if changed (p_sw2 p) \<and> justPressed (p_sw2 p) then st1\<lparr>state := SETTING\<rparr> else st1)
      in menuItem menuClicked ps (emit LedClrAll st2))"

lemma storeTime_loop_polls:
  "storeTime_loop mem ps st = Some (st', ps') \<Longrightarrow> length ps' \<le> length ps"
  by (induction ps arbitrary: mem st) (auto simp: Let_def le_SucI split: if_splits)

lemma recallTime_loop_polls:
  "recallTime_loop mem ps st = Some (st', ps') \<Longrightarrow> length ps' \<le> length ps"
  by (induction ps arbitrary: mem st) (auto simp: Let_def le_SucI split: if_splits)

lemma setBrightness_loop_polls:
  "setBrightness_loop t ps st = Some (st', ps') \<Longrightarrow> length ps' \<le> length ps"
  by (induction ps arbitrary: t st) (auto simp: Let_def le_SucI split: if_splits)

lemma setBellType_loop_polls:
  "setBellType_loop t ps st = Some (st', ps') \<Longrightarrow> length ps' \<le> length ps"
  by (induction ps arbitrary: t st) (auto simp: Let_def le_SucI split: if_splits prod.splits)

lemma setBellLength_loop_polls:
  "setBellLength_loop t ps st = Some (st', ps') \<Longrightarrow> length ps' \<le> length ps"
  by (induction ps arbitrary: t st) (auto simp: Let_def le_SucI split: if_splits prod.splits)

lemma menuItem_polls: "menuItem c ps st = Some (st', ps') \<Longrightarrow> length ps' \<le> length ps"
  by (auto simp: menuItem_def Let_def storeTime_def recallTime_def setBrightness_def
        setBellType_def setBellLength_def
      dest: storeTime_loop_polls recallTime_loop_polls setBrightness_loop_polls
        setBellType_loop_polls setBellLength_loop_polls
      split: if_splits option.splits)

lemma menuPass_polls: "menuPass p ps st = Some (st', ps') \<Longrightarrow> length ps' \<le> length ps"
  unfolding menuPass_def Let_def by (rule menuItem_polls)

function menuLoop :: "poll list \<Rightarrow> ctl \<Rightarrow> (ctl \<times> poll list) option" where
  "menuLoop [] st = None"
| "menuLoop (p # ps) st =
     (case menuPass p ps st of
        None \<Rightarrow> None
      | Some (st1, ps1) \<Rightarrow> if state st1 = MENU then menuLoop ps1 st1 else Some (st1, ps1))"
  by pat_completeness auto
termination
  by (relation "measure (\<lambda>(ps, st). length ps)") (auto dest: menuPass_polls)

definition menuNaviguate :: "poll list \<Rightarrow> ctl \<Rightarrow> (ctl \<times> poll list) option" where
  "menuNaviguate ps st =
     (case menuLoop ps st of
        None \<Rightarrow> None
      | Some (st1, ps1) \<Rightarrow> Some (stop (emits [LedClrAll, ClockSetDots None] st1), ps1))"

definition manageSW2 :: "button \<Rightarrow> poll list \<Rightarrow> ctl \<Rightarrow> (ctl \<times> poll list) option" where
  "manageSW2 b ps st =
     (if state st = BEEPING then Some (stopBeeps st, ps)
      else if justPressed b \<and> state st = SETTING then
        menuNaviguate ps (emit LedClrAll (st\<lparr>state := MENU\<rparr>))
      else if isLongPressed b \<and> (state st = RUN \<or> state st = PAUSE) then
        Some ((stop st)\<lparr>state := SETTING\<rparr>, ps)
      else Some (st, ps))"

section \<open>Start-up and the main loop\<close>

definition eepromInit :: "ctl \<Rightarrow> ctl" where
  "eepromInit st =
     fold (\<lambda>i s. EEPROM_write (memAdd + i + 1) 0 (EEPROM_write (memAdd + i) 0 s)) [0..<maxStore]
       (EEPROM_write bellLAdd 5 (EEPROM_write bellTAdd 1 (EEPROM_write brightAdd 8 st)))"

definition SW_VERSION :: nat where "SW_VERSION = 200"

text \<open>The global variables as they are initialised, over a given EEPROM.\<close>

definition power_on :: "(nat \<Rightarrow> nat) \<Rightarrow> ctl" where
  "power_on ee =
     \<lparr>state = SETTING, menuState = 0, enable = False, minutes = 0, seconds = 0, duration = 0,
      brightness = 16, bellType = 0, bellLength = 0, bellLoops = 0, currentMem = 1,
      out = False, out2 = False, tone = False, eeprom = ee, trace = []\<rparr>"

text \<open>
  \<^verbatim>\<open>setup()\<close>; \<open>sw1Low\<close> and \<open>sw2High\<close> are the two \<^verbatim>\<open>digitalRead\<close> of the buttons.
\<close>

definition setup_sketch :: "bool \<Rightarrow> bool \<Rightarrow> ctl \<Rightarrow> ctl" where
  "setup_sketch sw1Low sw2High st =
     (let st1 = emits [TimerInit timerMain, TimerInit timerDots, TimerInit timerPause,
                       TimerInit timerBeep1, TimerInit timerBeep2, TimerInit timerBeep3,
                       TimerSetDelay timerDots 500, TimerSetDelay timerPause 500] st;
          st2 = st1\<lparr>brightness := EEPROM_read brightAdd st1,
                    bellType := EEPROM_read bellTAdd st1,
                    bellLength := EEPROM_read bellLAdd st1\<rparr>;
          st3 = setBeepTimers (wrap8 (int (bellType st2))) st2;
          st4 = emits [LedBegin, LedSetIntensity (int (brightness st3) - 1), EncoderBegin,
                       ButtonBegin 4, ButtonBegin 5] st3;
          st5 = digitalWrite OUT True (emit (PinModeOutput OUT) st4);
          st6 = digitalWrite OUT2 True (emit (PinModeOutput OUT2) st5);
          st7 = beepOff (emit BeepSetup st6);
          st8 = (if sw1Low then
                   (let sa = emits (map (\<lambda>i. LedSetDigit (3 - i) ((SW_VERSION div 10 ^ i) mod 10))
                                        [0..<4]) st7;
                        sb = (if sw2High then eepromInit sa else sa)
                    in emit (Delay 5000) sb)
                 else st7)
      in emits [ClockBegin, ClockSetDots None] st8)"

definition loop :: "inputs \<Rightarrow> ctl \<Rightarrow> ctl option" where
  "loop i st =
     (let st1 = (if changed (sw1 i) then manageSW1 i st else st)
      in case (if changed (sw2 i) then manageSW2 (sw2 i) (polls i) st1 else Some (st1, polls i)) of
           None \<Rightarrow> None
         | Some (st2, ps) \<Rightarrow>
             (case state st2 of
                SETTING \<Rightarrow> Some (setting (enc i) st2)
              | RUN \<Rightarrow> Some (running i st2)
              | PAUSE \<Rightarrow> Some (pause i st2)
              | BEEPING \<Rightarrow> Some (beeping i st2)
              | MENU \<Rightarrow> map_option fst (menuNaviguate ps st2)))"

fun run :: "inputs list \<Rightarrow> ctl \<Rightarrow> ctl option" where
  "run [] st = Some st"
| "run (i # rest) st = (case loop i st of None \<Rightarrow> None | Some st1 \<Rightarrow> run rest st1)"

definition asserted :: "ctl \<Rightarrow> bool" where
  \<comment> \<open>the relay is driven by the low level of pin \<^verbatim>\<open>OUT\<close>\<close>
  "asserted st \<longleftrightarrow> \<not> out st"

section \<open>The sketch of 2016\<close>

text \<open>
  \<^verbatim>\<open>ComptePose.ino\<close> is the first version of the timer, with three states and no menu.
  Its \<^verbatim>\<open>setSeconds\<close> and \<^verbatim>\<open>setMinutes\<close> are those of the later boards, writing to
  \<^verbatim>\<open>display\<close>; its \<^verbatim>\<open>setTime\<close> has three steps only.
\<close>

datatype display_io = DisplaySetMinutes int | DisplaySetSeconds int

record sketch2016 =
  minutes16 :: int
  seconds16 :: int
  duration16 :: int
  display16 :: "display_io list"

definition setMinutes_2016 :: "int \<Rightarrow> sketch2016 \<Rightarrow> bool \<times> sketch2016" where
  "setMinutes_2016 v st =
     (let m = wrap8 (minutes16 st + v) in
      if m \<ge> 99 then (False, st\<lparr>minutes16 := 99\<rparr>)
      else if m < 0 then (False, st\<lparr>minutes16 := 0\<rparr>)
      else (True, st\<lparr>minutes16 := m, display16 := display16 st @ [DisplaySetMinutes m]\<rparr>))"

definition setSeconds_2016 :: "int \<Rightarrow> sketch2016 \<Rightarrow> sketch2016" where
  "setSeconds_2016 v st =
     (let s = wrap8 (seconds16 st + v);
          st1 =
            (if s \<ge> 60 then
               (case setMinutes_2016 1 st of
                  (True, st') \<Rightarrow> st'\<lparr>seconds16 := wrap8 (c_rem s 60)\<rparr>
                | (False, st') \<Rightarrow> st'\<lparr>seconds16 := 59\<rparr>)
             else if s < 0 then
               (case setMinutes_2016 (- 1) st of
                  (True, st') \<Rightarrow> st'\<lparr>seconds16 := wrap8 (s + 60)\<rparr>
                | (False, st') \<Rightarrow> st'\<lparr>seconds16 := 0\<rparr>)
             else st\<lparr>seconds16 := s\<rparr>)
      in st1\<lparr>display16 := display16 st1 @ [DisplaySetSeconds (seconds16 st1)]\<rparr>)"

definition setTime_2016 :: "int \<Rightarrow> sketch2016 \<Rightarrow> sketch2016" where
  "setTime_2016 v st =
     (let st1 =
            (if duration16 st \<ge> 300 then setSeconds_2016 (wrap8 (v * 15)) st
             else if duration16 st \<ge> 120 then setSeconds_2016 (wrap8 (v * 5)) st
             else setSeconds_2016 (wrap8 v) st)
      in st1\<lparr>duration16 := wrap16 (60 * minutes16 st1 + seconds16 st1)\<rparr>)"

section \<open>The soft timer\<close>

text \<open>
  Modelled from the spec: the library \<^verbatim>\<open>Timer.h\<close> (class \<^verbatim>\<open>Timer\<close>) is not among the
  sources; the sketch only calls it. The record and the operations below follow the
  data model and the contract that the specification gives for its \<open>SoftTimer\<close>: the state,
  the start tick, the delay, the repeat mode and the elapsed time banked at a pause. The
  tick is the millisecond count, taken as an unbounded natural number.
\<close>

datatype timer_state = Stopped | Running | Paused

datatype repeat_mode = Once | Loop | Count nat

record SoftTimer =
  tstate :: timer_state
  startTick :: nat
  delay :: nat
  repeatMode :: repeat_mode
  elapsedAtPause :: nat

definition Timer_init :: "SoftTimer \<Rightarrow> SoftTimer" where
  \<comment> \<open>Modelled from the spec: \<^verbatim>\<open>init()\<close> resets to Stopped.\<close>
  "Timer_init tm = tm\<lparr>tstate := Stopped, elapsedAtPause := 0\<rparr>"

definition Timer_start :: "repeat_mode \<Rightarrow> nat \<Rightarrow> SoftTimer \<Rightarrow> SoftTimer" where
  \<comment> \<open>Modelled from the spec: \<^verbatim>\<open>start(repeat)\<close> begins counting from the current tick.\<close>
  "Timer_start r now tm =
     tm\<lparr>tstate := Running, startTick := now, repeatMode := r, elapsedAtPause := 0\<rparr>"

definition Timer_stop :: "SoftTimer \<Rightarrow> SoftTimer" where
  \<comment> \<open>Modelled from the spec: \<^verbatim>\<open>stop()\<close> resets to Stopped and discards the elapsed time.\<close>
  "Timer_stop tm = tm\<lparr>tstate := Stopped, elapsedAtPause := 0\<rparr>"

definition elapsed :: "SoftTimer \<Rightarrow> nat \<Rightarrow> nat" where
  \<comment> \<open>Modelled from the spec: while running, the elapsed time is \<open>now - startTick\<close> plus what
      was banked; while paused, it is what was banked.\<close>
  "elapsed tm now =
     (case tstate tm of
        Running \<Rightarrow> now - startTick tm + elapsedAtPause tm
      | Paused \<Rightarrow> elapsedAtPause tm
      | Stopped \<Rightarrow> 0)"

definition remaining :: "SoftTimer \<Rightarrow> nat \<Rightarrow> nat" where
  \<comment> \<open>Modelled from the spec: \<^verbatim>\<open>remaining()\<close>, a pure read.\<close>
  "remaining tm now = delay tm - elapsed tm now"

definition Timer_pause :: "nat \<Rightarrow> SoftTimer \<Rightarrow> SoftTimer" where
  \<comment> \<open>Modelled from the spec: \<^verbatim>\<open>pause()\<close> freezes the elapsed time without losing it, and
      going back to running picks up what was banked. The sketch calls \<^verbatim>\<open>pause()\<close> both to
      pause and to leave the pause (\<^verbatim>\<open>manageSW1\<close>), so that on a paused timer the call
      resumes the counting from the current tick.\<close>
  "Timer_pause now tm =
     (case tstate tm of
        Running \<Rightarrow> tm\<lparr>tstate := Paused, elapsedAtPause := elapsed tm now\<rparr>
      | Paused \<Rightarrow> tm\<lparr>tstate := Running, startTick := now\<rparr>
      | Stopped \<Rightarrow> tm)"

definition Timer_update :: "nat \<Rightarrow> SoftTimer \<Rightarrow> bool \<times> SoftTimer" where
  \<comment> \<open>Modelled from the spec: \<^verbatim>\<open>update()\<close> is true once per expiry; a looping timer starts
      again one delay after its start tick, a counting one stops after its last expiry; a
      paused or stopped timer does not advance.\<close>
  "Timer_update now tm =
     (if tstate tm = Running \<and> delay tm \<le> elapsed tm now then
        (case repeatMode tm of
           Once \<Rightarrow> (True, tm\<lparr>tstate := Stopped, elapsedAtPause := 0\<rparr>)
         | Loop \<Rightarrow> (True, tm\<lparr>startTick := startTick tm + delay tm - elapsedAtPause tm,
                               elapsedAtPause := 0\<rparr>)
         | Count n \<Rightarrow>
             (if n \<le> 1 then (True, tm\<lparr>tstate := Stopped, elapsedAtPause := 0\<rparr>)
              else (True, tm\<lparr>startTick := startTick tm + delay tm - elapsedAtPause tm,
                             elapsedAtPause := 0, repeatMode := Count (n - 1)\<rparr>)))
      else (False, tm))"

text \<open>
  One pause of the countdown as the sketch drives it: \<^verbatim>\<open>manageSW1\<close> calls
  \<^verbatim>\<open>timerMain.pause()\<close> at tick \<open>p\<close>, \<^verbatim>\<open>pause()\<close> calls \<^verbatim>\<open>timerMain.update()\<close> at the
  ticks \<open>us\<close>, and \<^verbatim>\<open>manageSW1\<close> calls \<^verbatim>\<open>timerMain.pause()\<close> again at tick \<open>r\<close>.
\<close>

fun pauseResume :: "nat \<times> nat list \<times> nat \<Rightarrow> SoftTimer \<Rightarrow> SoftTimer" where
  "pauseResume (p, us, r) tm =
     Timer_pause r (fold (\<lambda>u t. snd (Timer_update u t)) us (Timer_pause p tm))"

text \<open>The ticks of a list of pauses follow one another, from tick \<open>t\<close> up to \<open>now\<close>.\<close>

fun chronological :: "nat \<Rightarrow> (nat \<times> nat list \<times> nat) list \<Rightarrow> nat \<Rightarrow> bool" where
  "chronological t [] now \<longleftrightarrow> t \<le> now"
| "chronological t ((p, us, r) # cs) now \<longleftrightarrow> t \<le> p \<and> p \<le> r \<and> chronological r cs now"

fun pausedTime :: "(nat \<times> nat list \<times> nat) list \<Rightarrow> nat" where
  "pausedTime [] = 0"
| "pausedTime ((p, us, r) # cs) = (r - p) + pausedTime cs"

section \<open>Ranges\<close>

definition multiplier :: "int \<Rightarrow> int" where
  \<comment> \<open>the table of the specification: the factor for a total duration in seconds\<close>
  "multiplier d =
     (if d \<ge> 600 then 30 else if d \<ge> 300 then 15 else if d \<ge> 120 then 10
      else if d \<ge> 30 then 5 else 1)"

definition multiplier_2016 :: "int \<Rightarrow> int" where
  "multiplier_2016 d = (if d \<ge> 300 then 15 else if d \<ge> 120 then 5 else 1)"

definition valid_time :: "ctl \<Rightarrow> bool" where
  "valid_time st \<longleftrightarrow> 0 \<le> minutes st \<and> minutes st \<le> 99 \<and> 0 \<le> seconds st \<and> seconds st \<le> 59"

definition config_ok :: "ctl \<Rightarrow> bool" where
  "config_ok st \<longleftrightarrow>
     1 \<le> currentMem st \<and> currentMem st \<le> 64 \<and> 1 \<le> brightness st \<and> brightness st \<le> 16 \<and>
     bellType st \<le> 8 \<and> bellLength st \<le> 90"

text \<open>
  A store whose bytes are all within their bounds: brightness, alert type, alert length,
  and the minutes and seconds of each of the 64 slots (slot \<open>mem\<close> is at
  \<open>memAdd + 2 * mem\<close>).
\<close>

definition store_ok :: "(nat \<Rightarrow> nat) \<Rightarrow> bool" where
  "store_ok ee \<longleftrightarrow>
     1 \<le> ee brightAdd mod 256 \<and> ee brightAdd mod 256 \<le> 16 \<and>
     ee bellTAdd mod 256 \<le> 8 \<and> ee bellLAdd mod 256 \<le> 90 \<and>
     (\<forall>mem \<in> {1..maxStore}.
        ee (memAdd + 2 * mem) mod 256 \<le> 99 \<and> ee (memAdd + 2 * mem + 1) mod 256 \<le> 59)"

definition in_range :: "ctl \<Rightarrow> bool" where
  "in_range st \<longleftrightarrow> valid_time st \<and> config_ok st \<and> store_ok (eeprom st)"

text \<open>
  An encoder step that needs one carry at most: scaled by the factor that the cached
  duration selects, it moves the seconds by -60 to +68.
\<close>

definition single_carry :: "int option \<Rightarrow> ctl \<Rightarrow> bool" where
  "single_carry e st \<longleftrightarrow>
     (case e of
        None \<Rightarrow> True
      | Some x \<Rightarrow>
          - 60 \<le> wrap8 (wrap8 x * multiplier (duration st)) \<and>
          wrap8 (wrap8 x * multiplier (duration st)) \<le> 68)"


definition time_of :: "ctl \<Rightarrow> int \<times> int \<times> int" where
  "time_of st = (minutes st, seconds st, duration st)"


section \<open>Concrete inputs\<close>

definition erased_eeprom :: "nat \<Rightarrow> nat" where
  \<comment> \<open>an EEPROM never written: every cell reads 255\<close>
  "erased_eeprom a = 255"

definition fresh_eeprom :: "nat \<Rightarrow> nat" where
  \<comment> \<open>brightness 8, alert type 1, alert length 5, every slot 00:00\<close>
  "fresh_eeprom a = (if a = 0 then 8 else if a = 1 then 1 else if a = 2 then 5 else 0)"

definition store_10_00 :: "nat \<Rightarrow> nat" where
  \<comment> \<open>as \<open>fresh_eeprom\<close>, with 10:00 in slot 1\<close>
  "store_10_00 a = (if a = 5 then 10 else fresh_eeprom a)"

definition at_10_00 :: ctl where
  "at_10_00 = (power_on fresh_eeprom)\<lparr>minutes := 10, seconds := 0, duration := 600\<rparr>"

definition at_98_30 :: ctl where
  "at_98_30 = (power_on fresh_eeprom)\<lparr>minutes := 98, seconds := 30, duration := 5910\<rparr>"

definition alert_1_90 :: ctl where
  "alert_1_90 = (power_on fresh_eeprom)\<lparr>bellType := 1, bellLength := 90\<rparr>"

definition alert_1_5 :: ctl where
  "alert_1_5 = (power_on fresh_eeprom)\<lparr>bellType := 1, bellLength := 5\<rparr>"

definition sketch_10_00 :: sketch2016 where
  "sketch_10_00 = \<lparr>minutes16 = 10, seconds16 = 0, duration16 = 600, display16 = []\<rparr>"

definition released :: button where
  "released = \<lparr>changed = False, justPressed = False, isLongPressed = False\<rparr>"

definition pressed :: button where
  "pressed = \<lparr>changed = True, justPressed = True, isLongPressed = False\<rparr>"

definition confirm :: poll where
  "confirm = \<lparr>p_enc = None, p_sw1 = pressed, p_sw2 = released\<rparr>"

definition idle :: inputs where
  "idle = \<lparr>sw1 = released, sw2 = released, enc = None, enc_sw1 = None, dotsFired = False,
           mainFired = False, pauseFired = False, beep1Fired = False, beep2Fired = False,
           beep3Fired = False, rMinutes = 0, rSeconds = 0, polls = []\<rparr>"

definition expired :: inputs where
  \<comment> \<open>a pass in which the main timer reports its expiry\<close>
  "expired = idle\<lparr>mainFired := True\<rparr>"


definition ringing :: ctl where
  "ringing = (power_on fresh_eeprom)\<lparr>state := BEEPING, out := True, out2 := True, tone := True\<rparr>"


definition countdown :: SoftTimer where
  \<comment> \<open>a countdown of 10 s started at tick 0\<close>
  "countdown =
     Timer_start Once 0
       \<lparr>tstate = Stopped, startTick = 0, delay = 10000, repeatMode = Once, elapsedAtPause = 0\<rparr>"


definition detent :: inputs where
  \<comment> \<open>a pass in which the encoder has moved by one detent\<close>
  "detent = idle\<lparr>enc := Some 1\<rparr>"


definition recall_slot :: inputs where
  \<comment> \<open>a pass in which switch 2 opens the menu, switch 1 selects the first item, which
      recalls a time, and switch 1 confirms the slot shown\<close>
  "recall_slot = idle\<lparr>sw2 := pressed, polls := [confirm, confirm]\<rparr>"

section \<open>Basic facts\<close>

lemma wrap8_id: "- 128 \<le> x \<Longrightarrow> x \<le> 127 \<Longrightarrow> wrap8 x = x"
  by (simp add: wrap8_def)

lemma trace_emit [simp]: "trace (emit c st) = trace st @ [c]"
  by (simp add: emit_def)

lemma trace_emits [simp]: "trace (emits cs st) = trace st @ cs"
  by (simp add: emits_def)

lemma emit_fields [simp]:
  "state (emit c st) = state st"
  "menuState (emit c st) = menuState st"
  "enable (emit c st) = enable st"
  "minutes (emit c st) = minutes st"
  "seconds (emit c st) = seconds st"
  "duration (emit c st) = duration st"
  "brightness (emit c st) = brightness st"
  "bellType (emit c st) = bellType st"
  "bellLength (emit c st) = bellLength st"
  "bellLoops (emit c st) = bellLoops st"
  "currentMem (emit c st) = currentMem st"
  "out (emit c st) = out st"
  "out2 (emit c st) = out2 st"
  "tone (emit c st) = tone st"
  "eeprom (emit c st) = eeprom st"
  by (simp_all add: emit_def)

lemma emits_fields [simp]:
  "state (emits cs st) = state st"
  "menuState (emits cs st) = menuState st"
  "enable (emits cs st) = enable st"
  "minutes (emits cs st) = minutes st"
  "seconds (emits cs st) = seconds st"
  "duration (emits cs st) = duration st"
  "brightness (emits cs st) = brightness st"
  "bellType (emits cs st) = bellType st"
  "bellLength (emits cs st) = bellLength st"
  "bellLoops (emits cs st) = bellLoops st"
  "currentMem (emits cs st) = currentMem st"
  "out (emits cs st) = out st"
  "out2 (emits cs st) = out2 st"
  "tone (emits cs st) = tone st"
  "eeprom (emits cs st) = eeprom st"
  by (simp_all add: emits_def)

lemma digitalWrite_fields [simp]:
  "state (digitalWrite p v st) = state st"
  "menuState (digitalWrite p v st) = menuState st"
  "enable (digitalWrite p v st) = enable st"
  "minutes (digitalWrite p v st) = minutes st"
  "seconds (digitalWrite p v st) = seconds st"
  "duration (digitalWrite p v st) = duration st"
  "brightness (digitalWrite p v st) = brightness st"
  "bellType (digitalWrite p v st) = bellType st"
  "bellLength (digitalWrite p v st) = bellLength st"
  "bellLoops (digitalWrite p v st) = bellLoops st"
  "currentMem (digitalWrite p v st) = currentMem st"
  "tone (digitalWrite p v st) = tone st"
  "eeprom (digitalWrite p v st) = eeprom st"
  by (simp_all add: digitalWrite_def split: pin.splits)

lemma digitalWrite_out [simp]:
  "out (digitalWrite OUT v st) = v" "out (digitalWrite OUT2 v st) = out st"
  "out2 (digitalWrite OUT2 v st) = v" "out2 (digitalWrite OUT v st) = out2 st"
  "trace (digitalWrite p v st) = trace st @ [DigitalWrite p v]"
  by (simp_all add: digitalWrite_def split: pin.splits)

lemma beepOn_fields [simp]:
  "state (beepOn st) = state st"
  "menuState (beepOn st) = menuState st"
  "enable (beepOn st) = enable st"
  "minutes (beepOn st) = minutes st"
  "seconds (beepOn st) = seconds st"
  "duration (beepOn st) = duration st"
  "brightness (beepOn st) = brightness st"
  "bellType (beepOn st) = bellType st"
  "bellLength (beepOn st) = bellLength st"
  "bellLoops (beepOn st) = bellLoops st"
  "currentMem (beepOn st) = currentMem st"
  "out (beepOn st) = out st"
  "out2 (beepOn st) = out2 st"
  "eeprom (beepOn st) = eeprom st"
  by (simp_all add: beepOn_def)

lemma beepOff_fields [simp]:
  "state (beepOff st) = state st"
  "menuState (beepOff st) = menuState st"
  "enable (beepOff st) = enable st"
  "minutes (beepOff st) = minutes st"
  "seconds (beepOff st) = seconds st"
  "duration (beepOff st) = duration st"
  "brightness (beepOff st) = brightness st"
  "bellType (beepOff st) = bellType st"
  "bellLength (beepOff st) = bellLength st"
  "bellLoops (beepOff st) = bellLoops st"
  "currentMem (beepOff st) = currentMem st"
  "out (beepOff st) = out st"
  "out2 (beepOff st) = out2 st"
  "eeprom (beepOff st) = eeprom st"
  by (simp_all add: beepOff_def)

lemma beep_tone [simp]:
  "tone (beepOn st) = True" "trace (beepOn st) = trace st @ [BeepOn]"
  "tone (beepOff st) = False" "trace (beepOff st) = trace st @ [BeepOff]"
  by (simp_all add: beepOn_def beepOff_def)

lemma EEPROM_write_fields [simp]:
  "state (EEPROM_write a v st) = state st"
  "menuState (EEPROM_write a v st) = menuState st"
  "enable (EEPROM_write a v st) = enable st"
  "minutes (EEPROM_write a v st) = minutes st"
  "seconds (EEPROM_write a v st) = seconds st"
  "duration (EEPROM_write a v st) = duration st"
  "brightness (EEPROM_write a v st) = brightness st"
  "bellType (EEPROM_write a v st) = bellType st"
  "bellLength (EEPROM_write a v st) = bellLength st"
  "bellLoops (EEPROM_write a v st) = bellLoops st"
  "currentMem (EEPROM_write a v st) = currentMem st"
  "out (EEPROM_write a v st) = out st"
  "out2 (EEPROM_write a v st) = out2 st"
  "tone (EEPROM_write a v st) = tone st"
  by (simp_all add: EEPROM_write_def)

lemma EEPROM_update_fields [simp]:
  "state (EEPROM_update a v st) = state st"
  "menuState (EEPROM_update a v st) = menuState st"
  "enable (EEPROM_update a v st) = enable st"
  "minutes (EEPROM_update a v st) = minutes st"
  "seconds (EEPROM_update a v st) = seconds st"
  "duration (EEPROM_update a v st) = duration st"
  "brightness (EEPROM_update a v st) = brightness st"
  "bellType (EEPROM_update a v st) = bellType st"
  "bellLength (EEPROM_update a v st) = bellLength st"
  "bellLoops (EEPROM_update a v st) = bellLoops st"
  "currentMem (EEPROM_update a v st) = currentMem st"
  "out (EEPROM_update a v st) = out st"
  "out2 (EEPROM_update a v st) = out2 st"
  "tone (EEPROM_update a v st) = tone st"
  by (simp_all add: EEPROM_update_def)

lemma EEPROM_cells [simp]:
  "eeprom (EEPROM_write a v st) = (eeprom st)(a := v mod 256)"
  "eeprom (EEPROM_update a v st) = (eeprom st)(a := v mod 256)"
  "trace (EEPROM_write a v st) = trace st @ [EepromWrite a v]"
  "trace (EEPROM_update a v st) = trace st @ [EepromUpdate a v]"
  by (simp_all add: EEPROM_write_def EEPROM_update_def)

lemma stop_fields [simp]:
  "state (stop st) = state st"
  "menuState (stop st) = menuState st"
  "enable (stop st) = enable st"
  "minutes (stop st) = minutes st"
  "seconds (stop st) = seconds st"
  "duration (stop st) = duration st"
  "brightness (stop st) = brightness st"
  "bellType (stop st) = bellType st"
  "bellLength (stop st) = bellLength st"
  "bellLoops (stop st) = bellLoops st"
  "currentMem (stop st) = currentMem st"
  "tone (stop st) = tone st"
  "eeprom (stop st) = eeprom st"
  by (simp_all add: stop_def Let_def)

lemma stop_out [simp]:
  "out (stop st) = True" "out2 (stop st) = True"
  "trace (stop st) = trace st @
     [DigitalWrite OUT True, DigitalWrite OUT2 True, TimerStop timerMain, TimerStop timerDots,
      ClockEnable None, ClockSetDots (Some True), ClockSetMinutes (minutes st),
      ClockSetSeconds (seconds st)]"
  by (simp_all add: stop_def Let_def)

lemma stopBeeps_fields [simp]:
  "menuState (stopBeeps st) = menuState st"
  "enable (stopBeeps st) = enable st"
  "minutes (stopBeeps st) = minutes st"
  "seconds (stopBeeps st) = seconds st"
  "duration (stopBeeps st) = duration st"
  "brightness (stopBeeps st) = brightness st"
  "bellType (stopBeeps st) = bellType st"
  "bellLength (stopBeeps st) = bellLength st"
  "bellLoops (stopBeeps st) = bellLoops st"
  "currentMem (stopBeeps st) = currentMem st"
  "out (stopBeeps st) = out st"
  "out2 (stopBeeps st) = out2 st"
  "eeprom (stopBeeps st) = eeprom st"
  by (simp_all add: stopBeeps_def)

lemma stopBeeps_state [simp]:
  "state (stopBeeps st) = SETTING" "tone (stopBeeps st) = False"
  "trace (stopBeeps st) = trace st @
     [TimerStop timerBeep1, TimerStop timerBeep2, TimerStop timerBeep3, BeepOff]"
  by (simp_all add: stopBeeps_def)

lemma setBeepTimers_fields [simp]:
  "state (setBeepTimers type st) = state st"
  "menuState (setBeepTimers type st) = menuState st"
  "enable (setBeepTimers type st) = enable st"
  "minutes (setBeepTimers type st) = minutes st"
  "seconds (setBeepTimers type st) = seconds st"
  "duration (setBeepTimers type st) = duration st"
  "brightness (setBeepTimers type st) = brightness st"
  "bellType (setBeepTimers type st) = bellType st"
  "bellLength (setBeepTimers type st) = bellLength st"
  "currentMem (setBeepTimers type st) = currentMem st"
  "out (setBeepTimers type st) = out st"
  "out2 (setBeepTimers type st) = out2 st"
  "tone (setBeepTimers type st) = tone st"
  "eeprom (setBeepTimers type st) = eeprom st"
  by (simp_all add: setBeepTimers_def Let_def split: prod.splits)

section \<open>The range of the time set\<close>

lemma setMinutes_fields [simp]:
  "state (snd (setMinutes v st)) = state st"
  "menuState (snd (setMinutes v st)) = menuState st"
  "enable (snd (setMinutes v st)) = enable st"
  "seconds (snd (setMinutes v st)) = seconds st"
  "duration (snd (setMinutes v st)) = duration st"
  "brightness (snd (setMinutes v st)) = brightness st"
  "bellType (snd (setMinutes v st)) = bellType st"
  "bellLength (snd (setMinutes v st)) = bellLength st"
  "bellLoops (snd (setMinutes v st)) = bellLoops st"
  "currentMem (snd (setMinutes v st)) = currentMem st"
  "out (snd (setMinutes v st)) = out st"
  "out2 (snd (setMinutes v st)) = out2 st"
  "tone (snd (setMinutes v st)) = tone st"
  "eeprom (snd (setMinutes v st)) = eeprom st"
  by (simp_all add: setMinutes_def Let_def)

lemma setSeconds_fields [simp]:
  "state (setSeconds v st) = state st"
  "menuState (setSeconds v st) = menuState st"
  "enable (setSeconds v st) = enable st"
  "duration (setSeconds v st) = duration st"
  "brightness (setSeconds v st) = brightness st"
  "bellType (setSeconds v st) = bellType st"
  "bellLength (setSeconds v st) = bellLength st"
  "bellLoops (setSeconds v st) = bellLoops st"
  "currentMem (setSeconds v st) = currentMem st"
  "out (setSeconds v st) = out st"
  "out2 (setSeconds v st) = out2 st"
  "tone (setSeconds v st) = tone st"
  "eeprom (setSeconds v st) = eeprom st"
  by (simp_all add: setSeconds_def Let_def case_prod_beta split: bool.splits)

lemma setTime_fields [simp]:
  "state (setTime v st) = state st"
  "menuState (setTime v st) = menuState st"
  "enable (setTime v st) = enable st"
  "brightness (setTime v st) = brightness st"
  "bellType (setTime v st) = bellType st"
  "bellLength (setTime v st) = bellLength st"
  "bellLoops (setTime v st) = bellLoops st"
  "currentMem (setTime v st) = currentMem st"
  "out (setTime v st) = out st"
  "out2 (setTime v st) = out2 st"
  "tone (setTime v st) = tone st"
  "eeprom (setTime v st) = eeprom st"
  by (simp_all add: setTime_def Let_def)

lemma setSeconds_valid:
  assumes "valid_time st" and "- 60 \<le> v" and "v \<le> 68"
  shows "valid_time (setSeconds v st)"
  using assms
  by (auto simp: valid_time_def setSeconds_def setMinutes_def Let_def wrap8_def c_rem_def
      split: prod.splits if_splits)

lemma multiplier_cases: "multiplier d \<in> {1, 5, 10, 15, 30}"
  by (simp add: multiplier_def)

lemma setTime_multiplier:
  "setTime v st =
     (let st1 = setSeconds (wrap8 (v * multiplier (duration st))) st
      in st1\<lparr>duration := wrap16 (60 * minutes st1 + seconds st1)\<rparr>)"
  by (simp add: setTime_def multiplier_def Let_def)

text \<open>
  The time stays within 00:00..99:59 under every step that needs one carry at most; the
  steps of one or two detents are among them, whatever the duration.
\<close>

lemma setTime_valid_carry:
  assumes "valid_time st"
    and "- 60 \<le> wrap8 (v * multiplier (duration st))"
    and "wrap8 (v * multiplier (duration st)) \<le> 68"
  shows "valid_time (setTime v st)"
proof -
  have "valid_time (setSeconds (wrap8 (v * multiplier (duration st))) st)"
    using assms by (rule setSeconds_valid)
  then show ?thesis
    by (simp add: setTime_multiplier Let_def valid_time_def)
qed

lemma scaled_small:
  assumes "- 2 \<le> v" and "v \<le> 2" and "m \<in> {1, 5, 10, 15, 30}"
  shows "- 60 \<le> wrap8 (v * m) \<and> wrap8 (v * m) \<le> 68"
proof -
  have "v \<in> {- 2, - 1, 0, 1, 2}" using assms by auto
  then show ?thesis using assms(3) by (auto simp: wrap8_def)
qed

lemma setTime_valid:
  assumes "valid_time st" and "- 2 \<le> v" and "v \<le> 2"
  shows "valid_time (setTime v st)"
  using scaled_small [OF assms(2,3) multiplier_cases] setTime_valid_carry [OF assms(1)]
  by blast

lemma setTime_fold_valid:
  "valid_time st \<Longrightarrow> \<forall>v \<in> set vs. - 2 \<le> v \<and> v \<le> 2 \<Longrightarrow> valid_time (fold setTime vs st)"
  by (induction vs arbitrary: st) (auto simp: setTime_valid)

lemma valid_power_on: "valid_time (power_on ee)"
  by (simp add: valid_time_def power_on_def)

lemma at_10_00_fields:
  "minutes at_10_00 = 10" "seconds at_10_00 = 0" "duration at_10_00 = 600"
  "trace at_10_00 = []"
  by (simp_all add: at_10_00_def power_on_def)

text \<open>A borrow: the sum is below zero and within \<^verbatim>\<open>int8_t\<close>, and a minute is left.\<close>

lemma setSeconds_borrow_once:
  assumes "- 128 \<le> seconds st + v" and "seconds st + v < 0"
    and "1 \<le> minutes st" and "minutes st \<le> 99"
  shows "minutes (setSeconds v st) = minutes st - 1"
    and "seconds (setSeconds v st) = seconds st + v + 60"
    and "trace (setSeconds v st) = trace st @
           [ClockSetMinutes (minutes st - 1), ClockSetSeconds (seconds st + v + 60)]"
proof -
  have w: "wrap8 (seconds st + v) = seconds st + v"
    using assms by (intro wrap8_id) linarith+
  have m: "wrap8 (minutes st - 1) = minutes st - 1"
    using assms by (intro wrap8_id) linarith+
  have w2: "wrap8 (seconds st + v + 60) = seconds st + v + 60"
    using assms by (intro wrap8_id) linarith+
  show "minutes (setSeconds v st) = minutes st - 1"
    and "seconds (setSeconds v st) = seconds st + v + 60"
    and "trace (setSeconds v st) = trace st @
           [ClockSetMinutes (minutes st - 1), ClockSetSeconds (seconds st + v + 60)]"
    using assms by (simp_all add: setSeconds_def setMinutes_def Let_def w m w2)
qed

lemma setTime_borrow_once:
  assumes "wrap8 (v * multiplier (duration st)) = k"
    and "- 128 \<le> seconds st + k" and "seconds st + k < 0"
    and "1 \<le> minutes st" and "minutes st \<le> 99"
  shows "time_of (setTime v st) =
           (minutes st - 1, seconds st + k + 60,
            wrap16 (60 * (minutes st - 1) + (seconds st + k + 60)))"
    and "trace (setTime v st) = trace st @
           [ClockSetMinutes (minutes st - 1), ClockSetSeconds (seconds st + k + 60)]"
  using setSeconds_borrow_once [OF assms(2-5)]
  by (simp_all add: setTime_multiplier Let_def time_of_def assms(1))

text \<open>
  C1. At 10:00, a time within range with its duration of 600 s cached, the step of -3
  detents is scaled to -90 seconds; one minute is borrowed and the seconds are left at
  -30, which is also what the display is given. The step of +5 detents is scaled to 150,
  which \<^verbatim>\<open>int8_t\<close> holds as -106, and leaves the seconds at -46.
\<close>

theorem setTime_three_detents_leaves_range:
  "valid_time at_10_00 \<and> duration at_10_00 = 60 * minutes at_10_00 + seconds at_10_00 \<and>
   time_of (setTime (- 3) at_10_00) = (9, - 30, 510) \<and>
   trace (setTime (- 3) at_10_00) = [ClockSetMinutes 9, ClockSetSeconds (- 30)] \<and>
   \<not> valid_time (setTime (- 3) at_10_00) \<and>
   time_of (setTime 5 at_10_00) = (9, - 46, 494)"
proof -
  have a: "time_of (setTime (- 3) at_10_00) = (9, - 30, 510)"
    and b: "trace (setTime (- 3) at_10_00) = [ClockSetMinutes 9, ClockSetSeconds (- 30)]"
    using setTime_borrow_once [where st = at_10_00 and v = "- 3" and k = "- 90"]
    by (simp_all add: at_10_00_fields multiplier_def wrap8_def wrap16_def)
  have c: "time_of (setTime 5 at_10_00) = (9, - 46, 494)"
    using setTime_borrow_once [where st = at_10_00 and v = 5 and k = "- 106"]
    by (simp add: at_10_00_fields multiplier_def wrap8_def wrap16_def)
  from a have "\<not> valid_time (setTime (- 3) at_10_00)"
    by (simp add: time_of_def valid_time_def)
  with a b c show ?thesis
    by (simp add: valid_time_def at_10_00_fields)
qed

section \<open>Carry and saturation\<close>

lemma setSeconds_plain:
  assumes "0 \<le> seconds st + v" and "seconds st + v \<le> 59"
  shows "minutes (setSeconds v st) = minutes st \<and> seconds (setSeconds v st) = seconds st + v"
proof -
  have w: "wrap8 (seconds st + v) = seconds st + v"
    using assms by (intro wrap8_id) linarith+
  show ?thesis using assms by (simp add: setSeconds_def Let_def w)
qed

lemma mod_60_once: "60 \<le> x \<Longrightarrow> x \<le> 119 \<Longrightarrow> x mod 60 = x - (60::int)"
proof -
  assume a: "60 \<le> x" "x \<le> 119"
  have "x mod 60 = (x - 60 + 60) mod 60" by simp
  also have "\<dots> = (x - 60) mod 60" by (rule mod_add_self2)
  also have "\<dots> = x - 60" using a by (intro mod_pos_pos_trivial) linarith+
  finally show ?thesis .
qed

lemma setSeconds_carry:
  assumes "60 \<le> seconds st + v" and "seconds st + v \<le> 119"
    and "0 \<le> minutes st" and "minutes st \<le> 97"
  shows "minutes (setSeconds v st) = minutes st + 1 \<and>
         seconds (setSeconds v st) = seconds st + v - 60"
proof -
  have w: "wrap8 (seconds st + v) = seconds st + v"
    using assms by (intro wrap8_id) linarith+
  have m: "wrap8 (minutes st + 1) = minutes st + 1"
    using assms by (intro wrap8_id) linarith+
  have r: "c_rem (seconds st + v) 60 = seconds st + v - 60"
    using assms(1,2) by (simp add: c_rem_def mod_60_once)
  have w2: "wrap8 (seconds st + v - 60) = seconds st + v - 60"
    using assms by (intro wrap8_id) linarith+
  show ?thesis
    using assms by (simp add: setSeconds_def setMinutes_def Let_def w m r w2)
qed

lemma setSeconds_borrow:
  assumes "- 60 \<le> seconds st + v" and "seconds st + v < 0"
    and "1 \<le> minutes st" and "minutes st \<le> 99"
  shows "minutes (setSeconds v st) = minutes st - 1 \<and>
         seconds (setSeconds v st) = seconds st + v + 60"
proof -
  have w: "wrap8 (seconds st + v) = seconds st + v"
    using assms by (intro wrap8_id) linarith+
  have m: "wrap8 (minutes st - 1) = minutes st - 1"
    using assms by (intro wrap8_id) linarith+
  have w2: "wrap8 (seconds st + v + 60) = seconds st + v + 60"
    using assms by (intro wrap8_id) linarith+
  show ?thesis
    using assms by (simp add: setSeconds_def setMinutes_def Let_def w m w2)
qed

lemma setSeconds_underflow_saturates:
  assumes "- 128 \<le> seconds st + v" and "seconds st + v < 0" and "minutes st = 0"
  shows "minutes (setSeconds v st) = 0 \<and> seconds (setSeconds v st) = 0"
proof -
  have w: "wrap8 (seconds st + v) = seconds st + v"
    using assms by (intro wrap8_id) linarith+
  have m: "wrap8 (- 1) = - 1"
    by (simp add: wrap8_def)
  show ?thesis
    using assms by (simp add: setSeconds_def setMinutes_def Let_def w m)
qed

lemma setSeconds_overflow_saturates:
  assumes "60 \<le> seconds st + v" and "seconds st + v \<le> 127"
    and "98 \<le> minutes st" and "minutes st \<le> 99"
  shows "minutes (setSeconds v st) = 99 \<and> seconds (setSeconds v st) = 59"
proof -
  have w: "wrap8 (seconds st + v) = seconds st + v"
    using assms by (intro wrap8_id) linarith+
  have m: "wrap8 (minutes st + 1) = minutes st + 1"
    using assms by (intro wrap8_id) linarith+
  show ?thesis
    using assms by (simp add: setSeconds_def setMinutes_def Let_def w m)
qed

lemma at_98_30_fields:
  "minutes at_98_30 = 98" "seconds at_98_30 = 30" "duration at_98_30 = 5910"
  by (simp_all add: at_98_30_def)


lemma setTime_minutes_seconds:
  "minutes (setTime v st) = minutes (setSeconds (wrap8 (v * multiplier (duration st))) st)"
  "seconds (setTime v st) = seconds (setSeconds (wrap8 (v * multiplier (duration st))) st)"
  by (simp_all add: setTime_multiplier Let_def)

text \<open>
  Both 10:00 and 98:30 are reached from 00:00 by single detents: 86 of them, and 263.
\<close>

lemma detents_reach_10_00:
  "time_of (fold setTime (replicate 86 1) (power_on fresh_eeprom)) = (10, 0, 600)"
  by code_simp

lemma detents_reach_98_30:
  "time_of (fold setTime (replicate 263 1) (power_on fresh_eeprom)) = (98, 30, 5910)"
  by code_simp

text \<open>
  C2. At 98:30 one detent is scaled to 30 seconds; the carry brings the minutes to 99,
  which is within 0..99, and yet the seconds are pinned to 59: the result is 99:59
  where the claim has 99:00.
\<close>

theorem setTime_carry_into_99_pins_seconds:
  "valid_time at_98_30 \<and> duration at_98_30 = 60 * minutes at_98_30 + seconds at_98_30 \<and>
   minutes (setTime 1 at_98_30) = 99 \<and> seconds (setTime 1 at_98_30) = 59"
proof -
  have k: "wrap8 (1 * multiplier (duration at_98_30)) = 30"
    by (simp add: at_98_30_fields multiplier_def wrap8_def)
  have "minutes (setSeconds 30 at_98_30) = 99 \<and> seconds (setSeconds 30 at_98_30) = 59"
    by (rule setSeconds_overflow_saturates) (simp_all add: at_98_30_fields)
  then have "minutes (setTime 1 at_98_30) = 99 \<and> seconds (setTime 1 at_98_30) = 59"
    unfolding setTime_minutes_seconds k .
  then show ?thesis
    by (simp add: valid_time_def at_98_30_fields)
qed


section \<open>The alert timers derived\<close>

lemma u16_id: "n < 65536 \<Longrightarrow> u16 (int n) = n"
  by (simp add: u16_def flip: zmod_int)

lemma u32_id: "n < 4294967296 \<Longrightarrow> u32 (int n) = n"
  by (simp add: u32_def flip: zmod_int)

lemma wrap16_id: "- 32768 \<le> x \<Longrightarrow> x \<le> 32767 \<Longrightarrow> wrap16 x = x"
  by (simp add: wrap16_def)

lemma setBeepTimers_bellLoops:
  "bellLoops (setBeepTimers type st) =
     u16 (int (u32 (wrap16 (int (bellLength st) * 1000)) div fst (beepDelays type)))"
  by (simp add: setBeepTimers_def Let_def split: prod.splits)

lemma setBeepTimers_trace:
  "trace (setBeepTimers type st) = trace st @
     [TimerSetDelay timerBeep1 (fst (beepDelays type)),
      TimerSetDelay timerBeep2 (snd (beepDelays type)),
      TimerSetDelay timerBeep3
        (u16 (int (bellLoops (setBeepTimers type st)) * int (fst (beepDelays type))))]"
  by (simp add: setBeepTimers_def Let_def split: prod.splits)

lemma beepDelays_range:
  "fst (beepDelays type) \<in> {100, 500, 1000, 2000}"
  by (simp add: beepDelays_def)

lemma setBeepTimers_short:
  assumes "bellLength st \<le> 32"
  shows "bellLoops (setBeepTimers type st) = (bellLength st * 1000) div fst (beepDelays type) \<and>
         trace (setBeepTimers type st) = trace st @
           [TimerSetDelay timerBeep1 (fst (beepDelays type)),
            TimerSetDelay timerBeep2 (snd (beepDelays type)),
            TimerSetDelay timerBeep3 (bellLoops (setBeepTimers type st) * fst (beepDelays type))]"
proof -
  let ?d = "fst (beepDelays type)"
  have d: "0 < ?d" using beepDelays_range [of type] by auto
  have w: "wrap16 (int (bellLength st) * 1000) = int (bellLength st * 1000)"
    using assms by (simp add: wrap16_id)
  have u: "u32 (int (bellLength st * 1000)) = bellLength st * 1000"
    using assms by (intro u32_id) linarith
  have le: "(bellLength st * 1000) div ?d \<le> bellLength st * 1000"
    by (rule div_le_dividend)
  have "u16 (int ((bellLength st * 1000) div ?d)) = (bellLength st * 1000) div ?d"
    using le assms by (intro u16_id) linarith
  then have l: "bellLoops (setBeepTimers type st) = (bellLength st * 1000) div ?d"
    unfolding setBeepTimers_bellLoops w u .
  have "(bellLength st * 1000) div ?d * ?d \<le> bellLength st * 1000"
    by simp
  then have "(bellLength st * 1000) div ?d * ?d < 65536" using assms by linarith
  then have "u16 (int ((bellLength st * 1000) div ?d * ?d)) = (bellLength st * 1000) div ?d * ?d"
    by (rule u16_id)
  then have "u16 (int ((bellLength st * 1000) div ?d) * int ?d) = (bellLength st * 1000) div ?d * ?d"
    by (simp only: of_nat_mult)
  then show ?thesis by (simp add: l setBeepTimers_trace)
qed

lemma alert_fields:
  "bellLength alert_1_90 = 90" "trace alert_1_90 = []"
  "bellLength alert_1_5 = 5" "trace alert_1_5 = []"
  by (simp_all add: alert_1_90_def alert_1_5_def power_on_def)

lemma setBeepTimers_type_1_length_5:
  "bellLoops (setBeepTimers 1 alert_1_5) = 5 \<and>
   trace (setBeepTimers 1 alert_1_5) =
     [TimerSetDelay timerBeep1 1000, TimerSetDelay timerBeep2 500, TimerSetDelay timerBeep3 5000]"
  using setBeepTimers_short [of alert_1_5 1] by (simp add: alert_fields beepDelays_def)

text \<open>
  C4. For alert type 1 and alert length 90 the product 90 * 1000 does not fit the 16-bit
  \<^verbatim>\<open>int\<close> in which it is formed: it is reduced to 24464, the repeat count is 24 and the
  bounding timer is set to 24000 ms, where the claim has 90 and 90000.
\<close>

theorem setBeepTimers_type_1_length_90:
  "bellLoops (setBeepTimers 1 alert_1_90) = 24 \<and>
   trace (setBeepTimers 1 alert_1_90) =
     [TimerSetDelay timerBeep1 1000, TimerSetDelay timerBeep2 500, TimerSetDelay timerBeep3 24000]"
proof -
  have l: "bellLoops (setBeepTimers 1 alert_1_90) = 24"
    by (simp add: setBeepTimers_bellLoops alert_fields beepDelays_def u16_def u32_def wrap16_def)
  show ?thesis
    by (simp add: l setBeepTimers_trace alert_fields beepDelays_def u16_def)
qed

section \<open>Recalling a time\<close>

lemma recallTime_loop_duration:
  "recallTime_loop mem ps st = Some (st', ps') \<Longrightarrow> duration st' = duration st"
  by (induction ps arbitrary: mem st) (auto simp: Let_def split: if_splits)

lemma recallTime_duration:
  "recallTime ps st = Some (st', ps') \<Longrightarrow> duration st' = duration st"
  by (auto simp: recallTime_def dest: recallTime_loop_duration)

lemma recallTime_confirm:
  assumes "p_enc p = None" and "justPressed (p_sw1 p)"
  shows "\<exists>st'. recallTime (p # ps) st = Some (st', ps) \<and>
           minutes st' = wrap8 (int (EEPROM_read (memAdd + 2 * currentMem st) st)) \<and>
           seconds st' = wrap8 (int (EEPROM_read (memAdd + 2 * currentMem st + 1) st)) \<and>
           duration st' = duration st \<and> currentMem st' = currentMem st \<and> state st' = SETTING"
  using assms by (simp add: recallTime_def Let_def EEPROM_read_def)

lemma power_on_fields:
  "minutes (power_on ee) = 0" "seconds (power_on ee) = 0" "duration (power_on ee) = 0"
  "currentMem (power_on ee) = 1" "eeprom (power_on ee) = ee" "state (power_on ee) = SETTING"
  "trace (power_on ee) = []" "out (power_on ee) = False" "brightness (power_on ee) = 16"
  "bellType (power_on ee) = 0" "bellLength (power_on ee) = 0"
  by (simp_all add: power_on_def)

lemma recallTime_10_00:
  "\<exists>st'. recallTime [confirm] (power_on store_10_00) = Some (st', []) \<and>
         minutes st' = 10 \<and> seconds st' = 0 \<and> duration st' = 0"
proof -
  obtain st' where r: "recallTime [confirm] (power_on store_10_00) = Some (st', [])"
    and m: "minutes st' = wrap8 (int (EEPROM_read (memAdd + 2 * currentMem (power_on store_10_00)) (power_on store_10_00)))"
    and s: "seconds st' = wrap8 (int (EEPROM_read (memAdd + 2 * currentMem (power_on store_10_00) + 1) (power_on store_10_00)))"
    and d: "duration st' = duration (power_on store_10_00)"
    using recallTime_confirm [of confirm "[]" "power_on store_10_00"]
    by (auto simp: confirm_def pressed_def)
  have "minutes st' = 10"
    by (simp add: m power_on_fields EEPROM_read_def memAdd_def store_10_00_def wrap8_def)
  moreover have "seconds st' = 0"
    by (simp add: s power_on_fields EEPROM_read_def memAdd_def store_10_00_def fresh_eeprom_def
        wrap8_def)
  moreover have "duration st' = 0"
    by (simp add: d power_on_fields)
  ultimately show ?thesis using r by blast
qed

lemma recallTime_then_one_detent:
  "map_option (time_of \<circ> setTime 1 \<circ> fst) (recallTime [confirm] (power_on store_10_00)) =
     Some (10, 1, 601)"
proof -
  obtain st' where r: "recallTime [confirm] (power_on store_10_00) = Some (st', [])"
    and t: "minutes st' = 10" "seconds st' = 0" "duration st' = 0"
    using recallTime_10_00 by blast
  have k: "wrap8 (1 * multiplier (duration st')) = 1"
    by (simp add: t multiplier_def wrap8_def)
  have "minutes (setSeconds 1 st') = minutes st' \<and> seconds (setSeconds 1 st') = seconds st' + 1"
    by (rule setSeconds_plain) (simp_all add: t)
  then have "minutes (setTime 1 st') = 10 \<and> seconds (setTime 1 st') = 1"
    unfolding setTime_minutes_seconds k by (simp add: t)
  moreover from this have "duration (setTime 1 st') = 601"
    by (simp add: setTime_multiplier Let_def wrap16_def)
  ultimately show ?thesis by (simp add: r time_of_def)
qed

text \<open>
  C5. With 10:00 stored in slot 1, recalling it right after power-on sets the time to
  10:00 and leaves the cached duration at 0 instead of 600.
\<close>

theorem recallTime_leaves_duration_stale:
  "map_option (time_of \<circ> fst) (recallTime [confirm] (power_on store_10_00)) = Some (10, 0, 0)"
  using recallTime_10_00 by (auto simp: time_of_def)

section \<open>The multiplier in the sketch of 2016\<close>

lemma setTime_2016_multiplier:
  "setTime_2016 v p =
     (let p1 = setSeconds_2016 (wrap8 (v * multiplier_2016 (duration16 p))) p
      in p1\<lparr>duration16 := wrap16 (60 * minutes16 p1 + seconds16 p1)\<rparr>)"
  by (simp add: setTime_2016_def multiplier_2016_def Let_def)

lemma setSeconds_2016_plain:
  assumes "0 \<le> seconds16 p + v" and "seconds16 p + v \<le> 59"
  shows "seconds16 (setSeconds_2016 v p) = seconds16 p + v"
proof -
  have w: "wrap8 (seconds16 p + v) = seconds16 p + v"
    using assms by (intro wrap8_id) linarith+
  show ?thesis using assms by (simp add: setSeconds_2016_def Let_def w)
qed

text \<open>
  The sketch of 2016 has a shorter table: at 10:00, a duration of 600 s, one detent adds
  15 seconds and not 30.
\<close>

lemma setTime_2016_at_10_00:
  "600 \<le> duration16 sketch_10_00 \<and>
   seconds16 (setTime_2016 1 sketch_10_00) = seconds16 sketch_10_00 + 1 * 15 \<and>
   seconds16 (setTime_2016 1 sketch_10_00) \<noteq>
     seconds16 sketch_10_00 + 1 * multiplier (duration16 sketch_10_00)"
proof -
  have k: "wrap8 (1 * multiplier_2016 (duration16 sketch_10_00)) = 15"
    by (simp add: sketch_10_00_def multiplier_2016_def wrap8_def)
  have "seconds16 (setSeconds_2016 15 sketch_10_00) = seconds16 sketch_10_00 + 15"
    by (rule setSeconds_2016_plain) (simp_all add: sketch_10_00_def)
  then have "seconds16 (setTime_2016 1 sketch_10_00) = seconds16 sketch_10_00 + 15"
    by (simp add: setTime_2016_multiplier Let_def k [simplified])
  then show ?thesis
    by (simp add: sketch_10_00_def multiplier_def)
qed

section \<open>The end of the countdown\<close>

lemma running_trace:
  "mainFired i \<Longrightarrow>
   trace (running i st) = trace st @
     (if dotsFired i then [ClockSetDots (Some (\<not> enable st))] else []) @
     [ClockSetMinutes (rMinutes i), ClockSetSeconds (rSeconds i), ClockUpdate] @
     (if 0 < bellLength st
      then [TimerStart timerBeep1 (Repeat (bellLoops st)), TimerStart timerBeep2 NoArg,
            TimerStart timerBeep3 NoArg, BeepOn]
      else []) @
     [DigitalWrite OUT True, DigitalWrite OUT2 True, TimerStop timerMain, TimerStop timerDots,
      ClockEnable None, ClockSetDots (Some True), ClockSetMinutes (minutes st),
      ClockSetSeconds (seconds st)]"
  by (simp add: running_def Let_def)

lemma running_state:
  "mainFired i \<Longrightarrow> state (running i st) = (if 0 < bellLength st then BEEPING else SETTING)"
  by (simp add: running_def Let_def)

lemma running_out: "mainFired i \<Longrightarrow> out (running i st) \<and> out2 (running i st)"
  by (simp add: running_def Let_def)

lemma running_time:
  "minutes (running i st) = minutes st" "seconds (running i st) = seconds st"
  "duration (running i st) = duration st"
  by (simp_all add: running_def Let_def)

text \<open>
  C7. When \<^verbatim>\<open>timerMain.update()\<close> reports the expiry in \<^verbatim>\<open>running()\<close>, the state becomes
  \<open>BEEPING\<close> if the alert length is positive and \<open>SETTING\<close> otherwise; in both cases the
  relay output is de-asserted and the last commands to the display restore the time set;
  the three alert timers are started only if the alert length is positive.
\<close>

theorem running_expiry:
  assumes "mainFired i"
  shows "(state (running i st) = BEEPING \<longleftrightarrow> 0 < bellLength st) \<and>
         (state (running i st) = SETTING \<longleftrightarrow> bellLength st = 0) \<and>
         \<not> asserted (running i st) \<and>
         minutes (running i st) = minutes st \<and> seconds (running i st) = seconds st \<and>
         trace (running i st) = trace st @
           (if dotsFired i then [ClockSetDots (Some (\<not> enable st))] else []) @
           [ClockSetMinutes (rMinutes i), ClockSetSeconds (rSeconds i), ClockUpdate] @
           (if 0 < bellLength st
            then [TimerStart timerBeep1 (Repeat (bellLoops st)), TimerStart timerBeep2 NoArg,
                  TimerStart timerBeep3 NoArg, BeepOn]
            else []) @
           [DigitalWrite OUT True, DigitalWrite OUT2 True, TimerStop timerMain,
            TimerStop timerDots, ClockEnable None, ClockSetDots (Some True),
            ClockSetMinutes (minutes st), ClockSetSeconds (seconds st)]"
  using assms running_trace [OF assms, of st]
  by (simp add: running_state running_out running_time asserted_def)


theorem running_expiry_witness:
  "mainFired expired \<and> state (running expired alert_1_5) = BEEPING \<and>
   \<not> asserted (running expired alert_1_5)"
  using running_expiry [of expired alert_1_5]
  by (simp add: expired_def idle_def alert_fields)

section \<open>Cancelling the alert\<close>

lemma manageSW1_beeping: "state st = BEEPING \<Longrightarrow> manageSW1 i st = stopBeeps st"
  by (simp add: manageSW1_def)

lemma manageSW2_beeping: "state st = BEEPING \<Longrightarrow> manageSW2 b ps st = Some (stopBeeps st, ps)"
  by (simp add: manageSW2_def)

lemma beeping_timeout_trace:
  "beep3Fired i \<Longrightarrow>
   trace (beeping i st) = trace st @
     (if beep1Fired i then [TimerStart timerBeep2 NoArg, BeepOn] else []) @
     (if beep2Fired i then [BeepOff] else []) @
     [TimerStop timerBeep3, TimerStop timerBeep2, TimerStop timerBeep1, BeepOff,
      DigitalWrite OUT True, DigitalWrite OUT2 True, TimerStop timerMain, TimerStop timerDots,
      ClockEnable None, ClockSetDots (Some True), ClockSetMinutes (minutes st),
      ClockSetSeconds (seconds st)]"
  by (simp add: beeping_def Let_def)

text \<open>
  C10. In the state \<open>BEEPING\<close> a press of either button has the same effect: the time set
  is unchanged, the three alert timers are stopped, the tone is silenced and the state
  becomes \<open>SETTING\<close>; these four commands are all that is sent, so that neither the display
  nor the relay pins are written. When it is the third alert timer that ends the alert,
  \<^verbatim>\<open>stop()\<close> runs as well: the relay pins are written and the display is set to the time.
\<close>

theorem cancel_beeping:
  assumes "state st = BEEPING"
  shows "manageSW2 b ps st = Some (manageSW1 i st, ps) \<and>
         state (manageSW1 i st) = SETTING \<and> \<not> tone (manageSW1 i st) \<and>
         minutes (manageSW1 i st) = minutes st \<and> seconds (manageSW1 i st) = seconds st \<and>
         duration (manageSW1 i st) = duration st \<and>
         out (manageSW1 i st) = out st \<and> out2 (manageSW1 i st) = out2 st \<and>
         trace (manageSW1 i st) = trace st @
           [TimerStop timerBeep1, TimerStop timerBeep2, TimerStop timerBeep3, BeepOff] \<and>
         trace (beeping (i\<lparr>beep3Fired := True\<rparr>) st) = trace st @
           (if beep1Fired i then [TimerStart timerBeep2 NoArg, BeepOn] else []) @
           (if beep2Fired i then [BeepOff] else []) @
           [TimerStop timerBeep3, TimerStop timerBeep2, TimerStop timerBeep1, BeepOff,
            DigitalWrite OUT True, DigitalWrite OUT2 True, TimerStop timerMain,
            TimerStop timerDots, ClockEnable None, ClockSetDots (Some True),
            ClockSetMinutes (minutes st), ClockSetSeconds (seconds st)]"
  using assms
  by (simp add: manageSW1_beeping manageSW2_beeping beeping_timeout_trace)

theorem cancel_beeping_witness:
  "state ringing = BEEPING \<and>
   manageSW2 pressed [] ringing = Some (manageSW1 idle ringing, []) \<and>
   state (manageSW1 idle ringing) = SETTING \<and>
   trace (manageSW1 idle ringing) =
     [TimerStop timerBeep1, TimerStop timerBeep2, TimerStop timerBeep3, BeepOff]"
  using cancel_beeping [of ringing pressed "[]" idle]
  by (simp add: ringing_def power_on_fields)

section \<open>The relay and the state\<close>











lemma setting_relay [simp]: "out (setting e st) = out st" "state (setting e st) = state st"
  by (simp_all add: setting_def split: option.splits)

lemma pause_relay [simp]: "out (pause i st) = out st" "state (pause i st) = state st"
  by (simp_all add: pause_def)








lemma manageSW2_long_press:
  "state st = RUN \<or> state st = PAUSE \<Longrightarrow> isLongPressed b \<Longrightarrow>
     \<exists>st'. manageSW2 b ps st = Some (st', ps) \<and> state st' = SETTING \<and> out st'"
  by (auto simp: manageSW2_def)






lemma eepromInit_cells_fields [simp]:
  "state (fold (\<lambda>i s. EEPROM_write (f i) 0 (EEPROM_write (g i) 0 s)) xs st) = state st"
  "menuState (fold (\<lambda>i s. EEPROM_write (f i) 0 (EEPROM_write (g i) 0 s)) xs st) = menuState st"
  "enable (fold (\<lambda>i s. EEPROM_write (f i) 0 (EEPROM_write (g i) 0 s)) xs st) = enable st"
  "minutes (fold (\<lambda>i s. EEPROM_write (f i) 0 (EEPROM_write (g i) 0 s)) xs st) = minutes st"
  "seconds (fold (\<lambda>i s. EEPROM_write (f i) 0 (EEPROM_write (g i) 0 s)) xs st) = seconds st"
  "duration (fold (\<lambda>i s. EEPROM_write (f i) 0 (EEPROM_write (g i) 0 s)) xs st) = duration st"
  "brightness (fold (\<lambda>i s. EEPROM_write (f i) 0 (EEPROM_write (g i) 0 s)) xs st) = brightness st"
  "bellType (fold (\<lambda>i s. EEPROM_write (f i) 0 (EEPROM_write (g i) 0 s)) xs st) = bellType st"
  "bellLength (fold (\<lambda>i s. EEPROM_write (f i) 0 (EEPROM_write (g i) 0 s)) xs st) = bellLength st"
  "bellLoops (fold (\<lambda>i s. EEPROM_write (f i) 0 (EEPROM_write (g i) 0 s)) xs st) = bellLoops st"
  "currentMem (fold (\<lambda>i s. EEPROM_write (f i) 0 (EEPROM_write (g i) 0 s)) xs st) = currentMem st"
  "out (fold (\<lambda>i s. EEPROM_write (f i) 0 (EEPROM_write (g i) 0 s)) xs st) = out st"
  "out2 (fold (\<lambda>i s. EEPROM_write (f i) 0 (EEPROM_write (g i) 0 s)) xs st) = out2 st"
  "tone (fold (\<lambda>i s. EEPROM_write (f i) 0 (EEPROM_write (g i) 0 s)) xs st) = tone st"
  by (induction xs arbitrary: st; simp)+

lemma eepromInit_fields [simp]:
  "state (eepromInit st) = state st"
  "menuState (eepromInit st) = menuState st"
  "enable (eepromInit st) = enable st"
  "minutes (eepromInit st) = minutes st"
  "seconds (eepromInit st) = seconds st"
  "duration (eepromInit st) = duration st"
  "brightness (eepromInit st) = brightness st"
  "bellType (eepromInit st) = bellType st"
  "bellLength (eepromInit st) = bellLength st"
  "bellLoops (eepromInit st) = bellLoops st"
  "currentMem (eepromInit st) = currentMem st"
  "out (eepromInit st) = out st"
  "out2 (eepromInit st) = out2 st"
  "tone (eepromInit st) = tone st"
  by (simp_all add: eepromInit_def)





section \<open>Pausing the countdown\<close>

lemma Timer_update_paused: "tstate tm = Paused \<Longrightarrow> Timer_update u tm = (False, tm)"
  by (simp add: Timer_update_def)

lemma updates_paused:
  "tstate tm = Paused \<Longrightarrow> fold (\<lambda>u t. snd (Timer_update u t)) us tm = tm"
  by (induction us) (simp_all add: Timer_update_paused)

lemma pauseResume_fields:
  assumes "tstate tm = Running"
  shows "tstate (pauseResume (p, us, r) tm) = Running"
    and "startTick (pauseResume (p, us, r) tm) = r"
    and "elapsedAtPause (pauseResume (p, us, r) tm) = elapsed tm p"
    and "delay (pauseResume (p, us, r) tm) = delay tm"
proof -
  have "tstate (Timer_pause p tm) = Paused"
    using assms by (simp add: Timer_pause_def)
  then have "pauseResume (p, us, r) tm = Timer_pause r (Timer_pause p tm)"
    by (simp add: updates_paused)
  then show "tstate (pauseResume (p, us, r) tm) = Running"
    and "startTick (pauseResume (p, us, r) tm) = r"
    and "elapsedAtPause (pauseResume (p, us, r) tm) = elapsed tm p"
    and "delay (pauseResume (p, us, r) tm) = delay tm"
    using assms by (simp_all add: Timer_pause_def)
qed

lemma pauseResume_elapsed:
  assumes "tstate tm = Running" and "startTick tm \<le> p" and "p \<le> r" and "r \<le> now"
  shows "elapsed (pauseResume (p, us, r) tm) now = elapsed tm (now - (r - p))"
  using assms pauseResume_fields [OF assms(1), of p us r]
  by (simp add: elapsed_def)

lemma chronological_paused: "chronological t cs now \<Longrightarrow> t + pausedTime cs \<le> now"
  by (induction t cs now rule: chronological.induct) auto

lemma pauses_elapsed:
  assumes "tstate tm = Running" and "chronological (startTick tm) cs now"
  shows "tstate (fold pauseResume cs tm) = Running \<and>
         delay (fold pauseResume cs tm) = delay tm \<and>
         elapsed (fold pauseResume cs tm) now = elapsed tm (now - pausedTime cs)"
  using assms
proof (induction cs arbitrary: tm)
  case Nil
  then show ?case by simp
next
  case (Cons c cs)
  obtain p us r where c: "c = (p, us, r)" by (cases c) auto
  let ?tm = "pauseResume (p, us, r) tm"
  from Cons.prems c have ord: "startTick tm \<le> p" "p \<le> r" "chronological r cs now"
    by simp_all
  note f = pauseResume_fields [OF Cons.prems(1), of p us r]
  have ih: "tstate (fold pauseResume cs ?tm) = Running \<and>
            delay (fold pauseResume cs ?tm) = delay ?tm \<and>
            elapsed (fold pauseResume cs ?tm) now = elapsed ?tm (now - pausedTime cs)"
    using Cons.IH [of ?tm] f ord by simp
  have "r \<le> now - pausedTime cs"
    using chronological_paused [OF ord(3)] by simp
  from pauseResume_elapsed [OF Cons.prems(1) ord(1,2) this]
  have "elapsed ?tm (now - pausedTime cs) = elapsed tm (now - pausedTime cs - (r - p))" .
  with ih f show ?case by (simp add: c add.commute)
qed

text \<open>
  C9. A running countdown is paused and resumed any number of times, at increasing ticks.
  At any later tick, what remains is what would remain to a timer never paused at that
  tick less the whole time spent paused.
\<close>

theorem pause_resume_remaining:
  assumes "tstate tm = Running" and "chronological (startTick tm) cs now"
  shows "remaining (fold pauseResume cs tm) now = remaining tm (now - pausedTime cs)"
  using pauses_elapsed [OF assms] by (simp add: remaining_def)

theorem pause_resume_remaining_witness:
  "tstate countdown = Running \<and>
   chronological (startTick countdown) [(3000, [3500, 4000], 8000), (8500, [], 8600)] 9000 \<and>
   remaining (fold pauseResume [(3000, [3500, 4000], 8000), (8500, [], 8600)] countdown) 9000
     = 6100"
  using pause_resume_remaining [of countdown "[(3000, [3500, 4000], 8000), (8500, [], 8600)]" 9000]
  by (simp add: countdown_def Timer_start_def remaining_def elapsed_def)

section \<open>Clamping in the menu\<close>




lemma u8_id: "0 \<le> x \<Longrightarrow> x \<le> 255 \<Longrightarrow> u8 x = nat x"
  by (simp add: u8_def)

text \<open>A step that does not leave the byte saturates at the bound.\<close>

lemma memStep_saturates:
  assumes "0 \<le> int mem + step" and "int mem + step \<le> 255"
  shows "int (memStep mem step) = max 1 (min 64 (int mem + step))"
  using assms by (auto simp: memStep_def Let_def maxStore_def u8_id)

lemma brightnessStep_saturates:
  assumes "0 \<le> int b + step" and "int b + step \<le> 255"
  shows "int (brightnessStep b step) = max 1 (min 16 (int b + step))"
  using assms by (auto simp: brightnessStep_def Let_def u8_id)

lemma bellStep_saturates:
  assumes "x \<le> hi" and "hi < 255"
  shows "bellStep hi x step = (if step > 0 then min hi (x + 1) else x - 1)"
proof -
  have "u8 (int x + 1) = x + 1"
    using assms by (simp add: u8_id)
  then show ?thesis by (auto simp: bellStep_def Let_def)
qed

text \<open>A step below zero wraps in the byte before it is clamped.\<close>

lemma memStep_wraps: "memStep 1 (- 2) = 64"
  by (simp add: memStep_def Let_def maxStore_def u8_def)

section \<open>Values within their bounds\<close>








lemma in_range_frame [simp]:
  "in_range (emit c st) = in_range st"
  "in_range (emits cs st) = in_range st"
  "in_range (digitalWrite p v st) = in_range st"
  "in_range (beepOn st) = in_range st"
  "in_range (beepOff st) = in_range st"
  "in_range (stop st) = in_range st"
  "in_range (stopBeeps st) = in_range st"
  "in_range (setBeepTimers type st) = in_range st"
  "in_range (st\<lparr>state := x\<rparr>) = in_range st"
  "in_range (st\<lparr>enable := e\<rparr>) = in_range st"
  "in_range (st\<lparr>menuState := n\<rparr>) = in_range st"
  by (simp_all add: in_range_def valid_time_def config_ok_def)















lemma two_detents_single_carry:
  assumes "- 2 \<le> wrap8 x" and "wrap8 x \<le> 2"
  shows "single_carry (Some x) st"
  using scaled_small [OF assms multiplier_cases] by (simp add: single_carry_def)

lemma running_in_range [simp]: "in_range (running i st) = in_range st"
  by (simp add: running_def Let_def)

lemma pause_in_range [simp]: "in_range (pause i st) = in_range st"
  by (simp add: pause_def)

lemma beeping_in_range [simp]: "in_range (beeping i st) = in_range st"
  by (simp add: beeping_def Let_def)












section \<open>Start-up\<close>

lemma setup_sketch_fields [simp]:
  "state (setup_sketch sw1Low sw2High st) = state st"
  "menuState (setup_sketch sw1Low sw2High st) = menuState st"
  "enable (setup_sketch sw1Low sw2High st) = enable st"
  "minutes (setup_sketch sw1Low sw2High st) = minutes st"
  "seconds (setup_sketch sw1Low sw2High st) = seconds st"
  "duration (setup_sketch sw1Low sw2High st) = duration st"
  "currentMem (setup_sketch sw1Low sw2High st) = currentMem st"
  by (simp_all add: setup_sketch_def Let_def)


lemma setup_sketch_eeprom:
  "\<not> (sw1Low \<and> sw2High) \<Longrightarrow> eeprom (setup_sketch sw1Low sw2High st) = eeprom st"
  by (auto simp: setup_sketch_def Let_def)





text \<open>
  \<^verbatim>\<open>eepromInit()\<close> steps through the cells one by one where the slots are two cells wide:
  it clears the cells 3 to 67, so that the slots from 33 on keep what the EEPROM held.
\<close>

lemma zero_cells_above:
  "\<forall>i \<in> set xs. memAdd + i + 1 < a \<Longrightarrow>
   eeprom (fold (\<lambda>i s. EEPROM_write (memAdd + i + 1) 0 (EEPROM_write (memAdd + i) 0 s)) xs st) a
     = eeprom st a"
  by (induction xs arbitrary: st) simp_all

lemma eepromInit_above:
  assumes "memAdd + maxStore < a"
  shows "eeprom (eepromInit st) a = eeprom st a"
proof -
  let ?st = "EEPROM_write bellLAdd 5 (EEPROM_write bellTAdd 1 (EEPROM_write brightAdd 8 st))"
  have "\<forall>i \<in> set [0..<maxStore]. memAdd + i + 1 < a"
    using assms by auto
  from zero_cells_above [OF this]
  have "eeprom (eepromInit st) a = eeprom ?st a"
    unfolding eepromInit_def .
  also have "\<dots> = eeprom st a"
    using assms by (simp add: memAdd_def brightAdd_def bellTAdd_def bellLAdd_def)
  finally show ?thesis .
qed

lemma eepromInit_leaves_slot_33:
  assumes "33 \<le> mem"
  shows "EEPROM_read (memAdd + 2 * mem) (eepromInit st) = EEPROM_read (memAdd + 2 * mem) st"
    and "EEPROM_read (memAdd + 2 * mem + 1) (eepromInit st) = EEPROM_read (memAdd + 2 * mem + 1) st"
  using assms by (simp_all add: EEPROM_read_def eepromInit_above maxStore_def)








section \<open>Recalling a time through the menu\<close>

lemma loop_recall_slot:
  assumes "state st = SETTING" and "menuState st = 0"
  shows "\<exists>st'. loop recall_slot st = Some st' \<and>
           minutes st' = wrap8 (int (EEPROM_read (memAdd + 2 * currentMem st) st)) \<and>
           seconds st' = wrap8 (int (EEPROM_read (memAdd + 2 * currentMem st + 1) st)) \<and>
           duration st' = duration st \<and> state st' = SETTING"
proof -
  let ?s1 = "emit LedClrAll (st\<lparr>state := MENU\<rparr>)"
  let ?s2 = "emit (LedSetText ''MEM-'') (emit LedClrAll ?s1)"
  obtain s3 where r: "recallTime [confirm] ?s2 = Some (s3, [])"
    and m: "minutes s3 = wrap8 (int (EEPROM_read (memAdd + 2 * currentMem ?s2) ?s2))"
    and s: "seconds s3 = wrap8 (int (EEPROM_read (memAdd + 2 * currentMem ?s2 + 1) ?s2))"
    and d: "duration s3 = duration ?s2" and t: "state s3 = SETTING"
    using recallTime_confirm [of confirm "[]" ?s2] by (auto simp: confirm_def pressed_def)
  have "menuItem True [confirm] (emit LedClrAll ?s1) = Some (s3, [])"
    using assms(2) r by (simp add: menuItem_def Let_def)
  then have "menuPass confirm [confirm] ?s1 = Some (s3, [])"
    by (simp add: menuPass_def Let_def confirm_def pressed_def released_def)
  then have "menuLoop [confirm, confirm] ?s1 = Some (s3, [])"
    using t by simp
  then have "menuNaviguate [confirm, confirm] ?s1 =
      Some (stop (emits [LedClrAll, ClockSetDots None] s3), [])"
    by (simp add: menuNaviguate_def)
  then have "manageSW2 pressed [confirm, confirm] st =
      Some (stop (emits [LedClrAll, ClockSetDots None] s3), [])"
    using assms(1) by (simp add: manageSW2_def pressed_def)
  then have "loop recall_slot st =
      Some (setting None (stop (emits [LedClrAll, ClockSetDots None] s3)))"
    using t by (simp add: loop_def Let_def recall_slot_def idle_def pressed_def released_def)
  moreover have "minutes s3 = wrap8 (int (EEPROM_read (memAdd + 2 * currentMem st) st))"
    "seconds s3 = wrap8 (int (EEPROM_read (memAdd + 2 * currentMem st + 1) st))"
    "duration s3 = duration st"
    by (simp_all add: m s d EEPROM_read_def)
  ultimately show ?thesis using t by (simp add: setting_def)
qed

text \<open>
  The same through \<^verbatim>\<open>loop()\<close>, after \<^verbatim>\<open>setup()\<close>: the menu is opened, the first item is
  selected and slot 1 is confirmed. Over a store with 10:00 in slot 1 the time is 10:00
  and the cached duration 0; over an EEPROM never written the time is -1:-1.
\<close>

lemma menu_recall_leaves_duration_stale:
  "map_option time_of (run [recall_slot] (setup_sketch False False (power_on store_10_00)))
     = Some (10, 0, 0)"
proof -
  let ?st = "setup_sketch False False (power_on store_10_00)"
  obtain st' where l: "loop recall_slot ?st = Some st'"
    and m: "minutes st' = wrap8 (int (EEPROM_read (memAdd + 2 * currentMem ?st) ?st))"
    and s: "seconds st' = wrap8 (int (EEPROM_read (memAdd + 2 * currentMem ?st + 1) ?st))"
    and d: "duration st' = duration ?st"
    using loop_recall_slot [of ?st] by (auto simp: power_on_fields power_on_def)
  have "minutes st' = 10" "seconds st' = 0" "duration st' = 0"
    by (simp_all add: m s d EEPROM_read_def setup_sketch_eeprom power_on_fields memAdd_def
        store_10_00_def fresh_eeprom_def wrap8_def)
  then show ?thesis by (simp add: l time_of_def)
qed

lemma menu_recall_erased:
  "map_option time_of (run [recall_slot] (setup_sketch False False (power_on erased_eeprom)))
     = Some (- 1, - 1, 0)"
proof -
  let ?st = "setup_sketch False False (power_on erased_eeprom)"
  obtain st' where l: "loop recall_slot ?st = Some st'"
    and m: "minutes st' = wrap8 (int (EEPROM_read (memAdd + 2 * currentMem ?st) ?st))"
    and s: "seconds st' = wrap8 (int (EEPROM_read (memAdd + 2 * currentMem ?st + 1) ?st))"
    and d: "duration st' = duration ?st"
    using loop_recall_slot [of ?st] by (auto simp: power_on_fields power_on_def)
  have "minutes st' = - 1" "seconds st' = - 1" "duration st' = 0"
    by (simp_all add: m s d EEPROM_read_def setup_sketch_eeprom power_on_fields
        erased_eeprom_def wrap8_def)
  then show ?thesis by (simp add: l time_of_def)
qed

section \<open>The multiplier after a recall\<close>

lemma loop_detent:
  "state st = SETTING \<Longrightarrow> loop detent st = Some (setting (Some 1) st)"
  by (simp add: loop_def Let_def detent_def idle_def released_def)

lemma setTime_one_detent_stale:
  assumes "minutes st = 10" and "seconds st = 0" and "duration st = 0"
  shows "time_of (setTime 1 st) = (10, 1, 601)"
proof -
  have k: "wrap8 (1 * multiplier (duration st)) = 1"
    by (simp add: assms multiplier_def wrap8_def)
  have "minutes (setSeconds 1 st) = minutes st \<and> seconds (setSeconds 1 st) = seconds st + 1"
    by (rule setSeconds_plain) (simp_all add: assms)
  then have "minutes (setTime 1 st) = 10 \<and> seconds (setTime 1 st) = 1"
    unfolding setTime_minutes_seconds k by (simp add: assms)
  moreover from this have "duration (setTime 1 st) = 601"
    by (simp add: setTime_multiplier Let_def wrap16_def)
  ultimately show ?thesis by (simp add: time_of_def)
qed

text \<open>
  C6. After \<^verbatim>\<open>setup()\<close> over a store with 10:00 in slot 1, a pass of \<^verbatim>\<open>loop()\<close> recalls
  slot 1 from the menu: the time is 10:00, a total of 600 seconds, for which the table has
  the multiplier 30. The detent of the next pass is scaled by 1: the time becomes 10:01
  and not 10:30. And at 10:00 with its duration cached, a step of 5 detents, which the
  table scales to 150 seconds, takes the time down to 9:-46.
\<close>

theorem setTime_multiplier_after_recall:
  "map_option time_of (run [recall_slot] (setup_sketch False False (power_on store_10_00)))
     = Some (10, 0, 0) \<and>
   multiplier (60 * 10 + 0) = 30 \<and>
   map_option time_of (run [recall_slot, detent] (setup_sketch False False (power_on store_10_00)))
     = Some (10, 1, 601) \<and>
   time_of (setTime 5 at_10_00) = (9, - 46, 494)"
proof -
  let ?st = "setup_sketch False False (power_on store_10_00)"
  obtain st' where l: "loop recall_slot ?st = Some st'"
    and m: "minutes st' = wrap8 (int (EEPROM_read (memAdd + 2 * currentMem ?st) ?st))"
    and s: "seconds st' = wrap8 (int (EEPROM_read (memAdd + 2 * currentMem ?st + 1) ?st))"
    and d: "duration st' = duration ?st" and t: "state st' = SETTING"
    using loop_recall_slot [of ?st] by (auto simp: power_on_fields power_on_def)
  have f: "minutes st' = 10" "seconds st' = 0" "duration st' = 0"
    by (simp_all add: m s d EEPROM_read_def setup_sketch_eeprom power_on_fields memAdd_def
        store_10_00_def fresh_eeprom_def wrap8_def)
  have a: "map_option time_of (run [recall_slot] ?st) = Some (10, 0, 0)"
    by (simp add: l f time_of_def)
  have "time_of (setTime 1 st') = (10, 1, 601)"
    using f by (rule setTime_one_detent_stale)
  then have "time_of (setting (Some 1) st') = (10, 1, 601)"
    by (simp add: setting_def time_of_def wrap8_def)
  then have b: "map_option time_of (run [recall_slot, detent] ?st) = Some (10, 1, 601)"
    by (simp add: l loop_detent [OF t])
  have c: "time_of (setTime 5 at_10_00) = (9, - 46, 494)"
    using setTime_borrow_once [where st = at_10_00 and v = 5 and k = "- 106"]
    by (simp add: at_10_00_fields multiplier_def wrap8_def wrap16_def)
  have "multiplier (60 * 10 + 0) = 30" by (simp add: multiplier_def)
  with a b c show ?thesis by blast
qed

end
